theory Spec2Isabelle
  imports Main "HOL-Library.Word"
begin

section \<open>vold: uevent parsing and handlers (uevent.c), mass-storage flags (ums.c)\<close>

text \<open>
  A shallow embedding of \<^verbatim>\<open>vold/uevent.c\<close> and of the flag handling of
  \<^verbatim>\<open>vold/ums.c\<close>.

  Conventions of the embedding.
  \<^item> A C \<^verbatim>\<open>char *\<close> that may be \<^verbatim>\<open>NULL\<close> is a \<open>string option\<close> (a
    \<open>cptr\<close> for the result of \<^verbatim>\<open>get_uevent_param\<close>); the string is the bytes
    before the terminating NUL.
  \<^item> Undefined behaviour of the C program (a read outside \<^verbatim>\<open>buffer\<close>, a store
    outside \<^verbatim>\<open>param[]\<close>, a dereference of \<^verbatim>\<open>NULL\<close>) is the value \<open>Fault\<close>.
  \<^item> \<^verbatim>\<open>malloc\<close> and \<^verbatim>\<open>strdup\<close> are taken to succeed; logging
    (\<^verbatim>\<open>LOGE\<close>, \<^verbatim>\<open>LOG_VOL\<close>) is not modelled.
\<close>

subsection \<open>Results\<close>

datatype fault =
    ReadOutsideBuffer
  | ParamStoreOutsideArray
  | NullDereference
  | ReadPastString

datatype 'a outcome = Ret 'a | Fault fault

subsection \<open>C strings in a byte array\<close>

abbreviation NUL :: char where
  "NUL \<equiv> CHR 0x00"

text \<open>
  \<open>scan_for c xs\<close> is the offset of the first \<open>c\<close> in \<open>xs\<close>; \<open>None\<close> when the
  scan leaves the array without finding one.
\<close>

fun scan_for :: "char \<Rightarrow> char list \<Rightarrow> nat option" where
  "scan_for c [] = None"
| "scan_for c (x # xs) = (if x = c then Some 0 else map_option Suc (scan_for c xs))"

text \<open>\<^verbatim>\<open>strlen(buffer + s)\<close>: reads \<open>buffer[s .. s + n]\<close>, the last one being the NUL.\<close>

definition c_strlen :: "char list \<Rightarrow> nat \<Rightarrow> nat option" where
  "c_strlen buffer s = scan_for NUL (drop s buffer)"

text \<open>The string that starts at \<open>buffer + s\<close> (what \<^verbatim>\<open>strdup\<close> copies).\<close>

definition c_str :: "char list \<Rightarrow> nat \<Rightarrow> string option" where
  "c_str buffer s = map_option (\<lambda>n. take n (drop s buffer)) (c_strlen buffer s)"

subsection \<open>\<^verbatim>\<open>atoi\<close>\<close>

definition isspace :: "char \<Rightarrow> bool" where
  "isspace c = (c = CHR 0x20 \<or> c = CHR 0x09 \<or> c = CHR 0x0A \<or> c = CHR 0x0B
                \<or> c = CHR 0x0C \<or> c = CHR 0x0D)"

definition isdigit :: "char \<Rightarrow> bool" where
  "isdigit c = (48 \<le> (of_char c :: nat) \<and> (of_char c :: nat) \<le> 57)"

fun digits_val :: "int \<Rightarrow> string \<Rightarrow> int" where
  "digits_val acc [] = acc"
| "digits_val acc (c # cs) =
     (if isdigit c then digits_val (acc * 10 + (of_char c - 48)) cs else acc)"

text \<open>
  \<^verbatim>\<open>atoi\<close> skips white space, takes an optional sign and the decimal digits that follow.
  A value outside the range of \<^verbatim>\<open>int\<close> is undefined in C; the model clamps it, as
  \<^verbatim>\<open>(int)strtol(s, NULL, 10)\<close> does on a 32-bit \<^verbatim>\<open>long\<close>.
\<close>

definition atoi :: "string \<Rightarrow> int" where
  "atoi s =
     (let t = dropWhile isspace s;
          v = (case t of
                 [] \<Rightarrow> 0
               | c # r \<Rightarrow>
                   if c = CHR ''-'' then - digits_val 0 r
                   else if c = CHR ''+'' then digits_val 0 r
                   else digits_val 0 t)
      in max (- 2147483648) (min 2147483647 v))"

subsection \<open>\<^verbatim>\<open>struct uevent\<close>\<close>

definition UEVENT_PARAMS_MAX :: nat where
  "UEVENT_PARAMS_MAX = 32"

datatype uevent_action = action_add | action_remove | action_change

record uevent =
  path :: "string option"
  action :: uevent_action
  subsystem :: "string option"
  param :: "string option list"
  seqnum :: "32 word"

text \<open>
  \<^verbatim>\<open>memset(event, 0, sizeof(struct uevent))\<close>: every pointer \<^verbatim>\<open>NULL\<close>, the action
  the enumerator of value 0, which is \<^verbatim>\<open>action_add\<close>.
\<close>

definition uevent_zero :: uevent where
  "uevent_zero =
     \<lparr>path = None, action = action_add, subsystem = None,
      param = replicate UEVENT_PARAMS_MAX None, seqnum = 0\<rparr>"

subsection \<open>\<^verbatim>\<open>process_uevent_message\<close>: the parsing loop\<close>

text \<open>
  One string after the first (the \<^verbatim>\<open>else\<close> branch of the loop body): \<open>str\<close> is the
  string at \<open>s\<close>. The result is the new \<open>param_idx\<close> and the event. The store
  \<^verbatim>\<open>event->param[param_idx++] = strdup(s)\<close> has no check of \<open>param_idx\<close>: at
  \<open>param_idx \<ge> UEVENT_PARAMS_MAX\<close> it writes outside the array.
\<close>

definition parse_field :: "string \<Rightarrow> nat \<Rightarrow> uevent \<Rightarrow> (nat \<times> uevent) outcome" where
  "parse_field str param_idx event =
     (if take 7 str = ''ACTION='' then
        (let a = drop 7 str in
         if a = ''add'' then Ret (param_idx, event\<lparr>action := action_add\<rparr>)
         else if a = ''change'' then Ret (param_idx, event\<lparr>action := action_change\<rparr>)
         else if a = ''remove'' then Ret (param_idx, event\<lparr>action := action_remove\<rparr>)
         else Ret (param_idx, event))
      else if take 7 str = ''SEQNUM='' then
        Ret (param_idx, event\<lparr>seqnum := word_of_int (atoi (drop 7 str))\<rparr>)
      else if take 10 str = ''SUBSYSTEM='' then
        Ret (param_idx, event\<lparr>subsystem := Some (drop 10 str)\<rparr>)
      else if param_idx < UEVENT_PARAMS_MAX then
        Ret (param_idx + 1, event\<lparr>param := (param event)[param_idx := Some str]\<rparr>)
      else Fault ParamStoreOutsideArray)"

text \<open>
  The loop \<^verbatim>\<open>while (s < end)\<close>. \<open>buffer\<close> is the whole array (64 KiB in the
  source; here of any size), \<open>end'\<close> is \<open>count\<close>, the length \<^verbatim>\<open>recv\<close> returned, and
  \<open>s\<close> is an index into \<open>buffer\<close>. The last argument \<open>hi\<close> is a ghost variable: one
  more than the highest index of \<open>buffer\<close> read so far. A read at an index that is not
  in the array ends the run with \<open>Fault ReadOutsideBuffer\<close>.

  In the first iteration the scan \<^verbatim>\<open>for (p = s; *p != '@'; p++);\<close> stops at the first
  \<^verbatim>\<open>@\<close> at or after \<open>s\<close>: neither a NUL nor \<open>end'\<close> stops it. Every iteration
  ends with \<^verbatim>\<open>s += strlen(s) + 1\<close>, so a string with no NUL inside the array faults
  whichever branch is taken.
\<close>

function parse_loop ::
  "char list \<Rightarrow> nat \<Rightarrow> nat \<Rightarrow> bool \<Rightarrow> nat \<Rightarrow> uevent \<Rightarrow> nat \<Rightarrow> nat \<times> uevent outcome" where
  "parse_loop buffer end' s first param_idx event hi =
     (if \<not> s < end' then (hi, Ret event)
      else if first then
        (case scan_for (CHR ''@'') (drop s buffer) of
           None \<Rightarrow> (Suc (length buffer), Fault ReadOutsideBuffer)
         | Some k \<Rightarrow>
             (case c_str buffer (s + k + 1) of
                None \<Rightarrow> (Suc (length buffer), Fault ReadOutsideBuffer)
              | Some pth \<Rightarrow>
                  (case c_strlen buffer s of
                     None \<Rightarrow> (Suc (length buffer), Fault ReadOutsideBuffer)
                   | Some n \<Rightarrow>
                       parse_loop buffer end' (s + n + 1) False param_idx
                         (event\<lparr>path := Some pth\<rparr>)
                         (max hi (max (s + n + 1) (s + k + 1 + length pth + 1))))))
      else
        (case c_str buffer s of
           None \<Rightarrow> (Suc (length buffer), Fault ReadOutsideBuffer)
         | Some str \<Rightarrow>
             (case parse_field str param_idx event of
                Fault f \<Rightarrow> (max hi (s + length str + 1), Fault f)
              | Ret (param_idx', event') \<Rightarrow>
                  parse_loop buffer end' (s + length str + 1) False param_idx' event'
                    (max hi (s + length str + 1)))))"
  by pat_completeness auto
termination
  by (relation "measure (\<lambda>(buffer, end', s, first, param_idx, event, hi). end' - s)") auto

declare parse_loop.simps [simp del]

text \<open>The parser: the loop from \<open>s = 0\<close> with \<open>first = 1\<close> on the zeroed event.\<close>

definition parse_uevent :: "char list \<Rightarrow> nat \<Rightarrow> nat \<times> uevent outcome" where
  "parse_uevent buffer count = parse_loop buffer count 0 True 0 uevent_zero 0"

text \<open>The message of the parsing example, each string with its terminator.\<close>

definition example_message :: "char list" where
  "example_message =
     ''X@/devices/foo'' @ [NUL] @ ''ACTION=add'' @ [NUL] @ ''SEQNUM=5'' @ [NUL]
     @ ''SUBSYSTEM=block'' @ [NUL] @ ''DEVTYPE=disk'' @ [NUL] @ ''MAJOR=8'' @ [NUL]
     @ ''MINOR=0'' @ [NUL]"

subsection \<open>\<^verbatim>\<open>get_uevent_param\<close>\<close>

text \<open>
  The pointer \<^verbatim>\<open>get_uevent_param\<close> returns: \<^verbatim>\<open>NULL\<close>, a pointer to a string, or
  (when the matching entry is exactly the name, with nothing after it) the address one
  past the entry's terminator, which must not be read.
\<close>

datatype cptr = Null | Ptr string | PastEnd

text \<open>
  The loop over \<^verbatim>\<open>event->param[i]\<close>, as a recursion over the array: it ends at the
  end of the array or at the first \<^verbatim>\<open>NULL\<close> slot.
  \<^verbatim>\<open>strncmp(param[i], param_name, strlen(param_name))\<close> compares a prefix only, and the
  result \<^verbatim>\<open>&param[i][strlen(param_name) + 1]\<close> skips one more character, whatever it is.
\<close>

fun get_param_loop :: "string option list \<Rightarrow> string \<Rightarrow> cptr" where
  "get_param_loop [] param_name = Null"
| "get_param_loop (None # ps) param_name = Null"
| "get_param_loop (Some p # ps) param_name =
     (if take (length param_name) p = param_name then
        (if length param_name + 1 \<le> length p
         then Ptr (drop (length param_name + 1) p) else PastEnd)
      else get_param_loop ps param_name)"

definition get_uevent_param :: "uevent \<Rightarrow> string \<Rightarrow> cptr" where
  "get_uevent_param event param_name =
     get_param_loop (take UEVENT_PARAMS_MAX (param event)) param_name"

text \<open>Reading the string behind a pointer, as \<^verbatim>\<open>strcmp\<close> and \<^verbatim>\<open>atoi\<close> do.\<close>

fun deref :: "cptr \<Rightarrow> string outcome" where
  "deref Null = Fault NullDereference"
| "deref PastEnd = Fault ReadPastString"
| "deref (Ptr s) = Ret s"

subsection \<open>The collaborators of the handlers\<close>

text \<open>
  The block-device table, the media table, the volume manager and the sysfs helpers are
  not part of \<^verbatim>\<open>uevent.c\<close>: the handlers are parameterised by them. \<open>'w\<close> is the
  state of the collaborators, \<open>'b\<close> a \<^verbatim>\<open>blkdev_t *\<close>, \<open>'m\<close> a \<^verbatim>\<open>media_t *\<close>.
  Lookups read the state; the other calls return the new state. \<open>blkdev_disk\<close> is
  the field read \<^verbatim>\<open>blkdev->disk\<close>. The callback argument of
  \<^verbatim>\<open>volmgr_notify_eject\<close> is always \<^verbatim>\<open>_cb_blkdev_ok_to_destroy\<close> and the type
  argument of \<^verbatim>\<open>media_create\<close> always \<^verbatim>\<open>media_mmc\<close>; both are left out.
\<close>

record ('w, 'b, 'm) collab =
  truncate_sysfs_path :: "string option \<Rightarrow> int \<Rightarrow> string"
  media_lookup_by_path :: "'w \<Rightarrow> string option \<Rightarrow> bool \<Rightarrow> 'm option"
  media_lookup_by_dev :: "'w \<Rightarrow> 'b \<Rightarrow> 'm option"
  media_create :: "'w \<Rightarrow> string option \<Rightarrow> cptr \<Rightarrow> string \<Rightarrow> 'm option \<times> 'w"
  media_destroy :: "'w \<Rightarrow> 'm \<Rightarrow> 'w"
  media_add_blkdev :: "'w \<Rightarrow> 'm \<Rightarrow> 'b \<Rightarrow> int \<times> 'w"
  media_remove_blkdev :: "'w \<Rightarrow> 'm \<Rightarrow> 'b \<Rightarrow> 'w"
  blkdev_lookup_by_devno :: "'w \<Rightarrow> int \<Rightarrow> int \<Rightarrow> 'b option"
  blkdev_create ::
    "'w \<Rightarrow> 'b option \<Rightarrow> string option \<Rightarrow> int \<Rightarrow> int \<Rightarrow> 'm \<Rightarrow> cptr \<Rightarrow> 'b option \<times> 'w"
  blkdev_devpath_set :: "'w \<Rightarrow> 'b \<Rightarrow> string option \<Rightarrow> 'w"
  blkdev_disk :: "'w \<Rightarrow> 'b \<Rightarrow> 'b"
  blkdev_get_num_pending_partitions :: "'w \<Rightarrow> 'b \<Rightarrow> int"
  blkdev_destroy :: "'w \<Rightarrow> 'b \<Rightarrow> 'w"
  volmgr_consider_disk :: "'w \<Rightarrow> 'b \<Rightarrow> int \<times> 'w"
  volmgr_notify_eject :: "'w \<Rightarrow> 'b \<Rightarrow> int \<times> 'w"
  read_sysfs_var :: "'w \<Rightarrow> string option \<Rightarrow> string \<Rightarrow> string"

text \<open>
  The calls a handler makes itself, in order, with their arguments
  (\<open>Call_blkdev_get_num_pending_partitions\<close> also carries the value returned).
\<close>

datatype ('b, 'm) call =
    Call_truncate_sysfs_path "string option" int
  | Call_media_lookup_by_path "string option"
  | Call_media_lookup_by_dev 'b
  | Call_media_create "string option" cptr string
  | Call_media_destroy 'm
  | Call_media_add_blkdev 'm 'b
  | Call_media_remove_blkdev 'm 'b
  | Call_blkdev_lookup_by_devno int int
  | Call_blkdev_create "'b option" "string option" int int 'm cptr
  | Call_blkdev_devpath_set 'b "string option"
  | Call_blkdev_get_num_pending_partitions 'b int
  | Call_blkdev_destroy 'b
  | Call_volmgr_consider_disk 'b
  | Call_volmgr_notify_eject 'b
  | Call_read_sysfs_var "string option" string

definition EINVAL :: int where
  "EINVAL = 22"

subsection \<open>\<^verbatim>\<open>handle_block_event\<close>\<close>

text \<open>
  From \<^verbatim>\<open>media_add_blkdev\<close> to the end of the Add branch. The source reads
  \<^verbatim>\<open>blkdev_get_num_pending_partitions(blkdev->disk)\<close> twice (for the log line and for
  the test); reading does not change the state, so the model reads it once.
\<close>

definition block_event_attach ::
  "('w, 'b, 'm) collab \<Rightarrow> 'w \<Rightarrow> 'm \<Rightarrow> 'b \<Rightarrow> bool \<Rightarrow> int outcome \<times> 'w \<times> ('b, 'm) call list" where
  "block_event_attach C w media blkdev pending =
     (case media_add_blkdev C w media blkdev of
        (rc, w1) \<Rightarrow>
          if rc < 0 then (Ret rc, w1, [Call_media_add_blkdev media blkdev])
          else if pending then
            (let disk = blkdev_disk C w1 blkdev;
                 n = blkdev_get_num_pending_partitions C w1 disk
             in if n = 0 then
                  (case volmgr_consider_disk C w1 disk of
                     (rc2, w2) \<Rightarrow>
                       (Ret (if rc2 < 0 then rc2 else 0), w2,
                        [Call_media_add_blkdev media blkdev,
                         Call_blkdev_get_num_pending_partitions disk n,
                         Call_volmgr_consider_disk disk]))
                else
                  (Ret 0, w1,
                   [Call_media_add_blkdev media blkdev,
                    Call_blkdev_get_num_pending_partitions disk n]))
          else (Ret 0, w1, [Call_media_add_blkdev media blkdev]))"

text \<open>The branch \<^verbatim>\<open>event->action == action_add\<close>.\<close>

definition block_event_add ::
  "('w, 'b, 'm) collab \<Rightarrow> 'w \<Rightarrow> uevent \<Rightarrow> 'm \<Rightarrow> int \<Rightarrow> int
   \<Rightarrow> int outcome \<times> 'w \<times> ('b, 'm) call list" where
  "block_event_add C w event media maj min' =
     (let disk = blkdev_lookup_by_devno C w maj 0;
          t = [Call_blkdev_lookup_by_devno maj 0, Call_blkdev_lookup_by_devno maj min']
      in case blkdev_lookup_by_devno C w maj min' of
           Some blkdev \<Rightarrow>
             (let w1 = blkdev_devpath_set C w blkdev (path event)
              in case block_event_attach C w1 media blkdev True of
                   (r, w2, t2) \<Rightarrow>
                     (r, w2, t @ [Call_blkdev_devpath_set blkdev (path event)] @ t2))
         | None \<Rightarrow>
             (let ty = get_uevent_param event ''DEVTYPE'';
                  c = Call_blkdev_create disk (path event) maj min' media ty
              in case blkdev_create C w disk (path event) maj min' media ty of
                   (None, w1) \<Rightarrow> (Ret (- 1), w1, t @ [c])
                 | (Some blkdev, w1) \<Rightarrow>
                     (case block_event_attach C w1 media blkdev False of
                        (r, w2, t2) \<Rightarrow> (r, w2, t @ [c] @ t2))))"

text \<open>
  The branch \<^verbatim>\<open>event->action == action_remove\<close>. The result of
  \<^verbatim>\<open>volmgr_notify_eject\<close> is logged only; the handler returns 0 either way.
\<close>

definition block_event_remove ::
  "('w, 'b, 'm) collab \<Rightarrow> 'w \<Rightarrow> int \<Rightarrow> int \<Rightarrow> int outcome \<times> 'w \<times> ('b, 'm) call list" where
  "block_event_remove C w maj min' =
     (case blkdev_lookup_by_devno C w maj min' of
        None \<Rightarrow> (Ret 0, w, [Call_blkdev_lookup_by_devno maj min'])
      | Some blkdev \<Rightarrow>
          (case volmgr_notify_eject C w blkdev of
             (rc, w1) \<Rightarrow>
               (Ret 0, w1,
                [Call_blkdev_lookup_by_devno maj min', Call_volmgr_notify_eject blkdev])))"

text \<open>
  After the choice of \<open>n\<close>: the media lookup, \<^verbatim>\<open>MAJOR\<close> and \<^verbatim>\<open>MINOR\<close>, and the
  branch on the action.
\<close>

definition block_event_media ::
  "('w, 'b, 'm) collab \<Rightarrow> 'w \<Rightarrow> uevent \<Rightarrow> int \<Rightarrow> int outcome \<times> 'w \<times> ('b, 'm) call list" where
  "block_event_media C w event n =
     (let mediapath = truncate_sysfs_path C (path event) n;
          t = [Call_truncate_sysfs_path (path event) n,
               Call_media_lookup_by_path (Some mediapath)]
      in case media_lookup_by_path C w (Some mediapath) False of
           None \<Rightarrow> (Ret 0, w, t)
         | Some media \<Rightarrow>
             (case deref (get_uevent_param event ''MAJOR'') of
                Fault f \<Rightarrow> (Fault f, w, t)
              | Ret majs \<Rightarrow>
                  (case deref (get_uevent_param event ''MINOR'') of
                     Fault f \<Rightarrow> (Fault f, w, t)
                   | Ret mins \<Rightarrow>
                       (let maj = atoi majs; min' = atoi mins
                        in if action event = action_add then
                             (case block_event_add C w event media maj min' of
                                (r, w1, t1) \<Rightarrow> (r, w1, t @ t1))
                           else if action event = action_remove then
                             (case block_event_remove C w maj min' of
                                (r, w1, t1) \<Rightarrow> (r, w1, t @ t1))
                           else (Ret 0, w, t)))))"

text \<open>
  The handler. \<^verbatim>\<open>get_uevent_param(event, "DEVTYPE")\<close> is given to \<^verbatim>\<open>strcmp\<close>
  unchecked; the event is not changed between the calls, so each call returns the same
  pointer.
\<close>

definition handle_block_event ::
  "('w, 'b, 'm) collab \<Rightarrow> 'w \<Rightarrow> uevent \<Rightarrow> int outcome \<times> 'w \<times> ('b, 'm) call list" where
  "handle_block_event C w event =
     (case deref (get_uevent_param event ''DEVTYPE'') of
        Fault f \<Rightarrow> (Fault f, w, [])
      | Ret devtype \<Rightarrow>
          if devtype = ''disk'' then block_event_media C w event 2
          else if devtype = ''partition'' then block_event_media C w event 3
          else (Ret (- EINVAL), w, []))"

text \<open>\<^verbatim>\<open>_cb_blkdev_ok_to_destroy\<close>, the callback handed to \<^verbatim>\<open>volmgr_notify_eject\<close>.\<close>

definition cb_blkdev_ok_to_destroy ::
  "('w, 'b, 'm) collab \<Rightarrow> 'w \<Rightarrow> 'b \<Rightarrow> 'w \<times> ('b, 'm) call list" where
  "cb_blkdev_ok_to_destroy C w dev =
     (case media_lookup_by_dev C w dev of
        Some media \<Rightarrow>
          (blkdev_destroy C (media_remove_blkdev C w media dev) dev,
           [Call_media_lookup_by_dev dev, Call_media_remove_blkdev media dev,
            Call_blkdev_destroy dev])
      | None \<Rightarrow>
          (blkdev_destroy C w dev, [Call_media_lookup_by_dev dev, Call_blkdev_destroy dev]))"

subsection \<open>\<^verbatim>\<open>handle_mmc_event\<close>\<close>

definition handle_mmc_event ::
  "('w, 'b, 'm) collab \<Rightarrow> 'w \<Rightarrow> uevent \<Rightarrow> int outcome \<times> 'w \<times> ('b, 'm) call list" where
  "handle_mmc_event C w event =
     (if action event = action_add then
        (case deref (get_uevent_param event ''MMC_TYPE'') of
           Fault f \<Rightarrow> (Fault f, w, [])
         | Ret ty \<Rightarrow>
             if ty \<noteq> ''SD'' \<and> ty \<noteq> ''MMC'' then (Ret 0, w, [])
             else
               (let serial = read_sysfs_var C w (path event) ''serial'';
                    name = get_uevent_param event ''MMC_NAME'';
                    t = [Call_read_sysfs_var (path event) ''serial'',
                         Call_media_create (path event) name serial]
                in case media_create C w (path event) name serial of
                     (None, w1) \<Rightarrow> (Ret (- 1), w1, t)
                   | (Some media, w1) \<Rightarrow> (Ret 0, w1, t)))
      else if action event = action_remove then
        (case media_lookup_by_path C w (path event) False of
           None \<Rightarrow> (Ret (- 1), w, [Call_media_lookup_by_path (path event)])
         | Some media \<Rightarrow>
             (Ret 0, media_destroy C w media,
              [Call_media_lookup_by_path (path event), Call_media_destroy media]))
      else (Ret 0, w, []))"

subsection \<open>\<^verbatim>\<open>ums.c\<close>: the two flags, and \<^verbatim>\<open>handle_switch_event\<close>\<close>

text \<open>
  The messages given to \<^verbatim>\<open>send_msg\<close> (whose result these functions ignore). The
  state is the two static flags and, as a log, the messages sent.
\<close>

datatype vold_evt =
    VOLD_EVT_UMS_ENABLED
  | VOLD_EVT_UMS_DISABLED
  | VOLD_EVT_UMS_CONNECTED
  | VOLD_EVT_UMS_DISCONNECTED

record ums_state =
  host_connected :: bool
  ums_enabled :: bool
  sent :: "vold_evt list"

definition ums_enabled_set :: "bool \<Rightarrow> ums_state \<Rightarrow> ums_state" where
  "ums_enabled_set enabled u =
     u\<lparr>ums_enabled := enabled,
       sent := sent u @ [if enabled then VOLD_EVT_UMS_ENABLED else VOLD_EVT_UMS_DISABLED]\<rparr>"

definition ums_hostconnected_set :: "bool \<Rightarrow> ums_state \<Rightarrow> ums_state" where
  "ums_hostconnected_set connected u =
     (let u1 = u\<lparr>host_connected := connected\<rparr>;
          u2 = (if \<not> connected then ums_enabled_set False u1 else u1)
      in u2\<lparr>sent := sent u2
               @ [if connected then VOLD_EVT_UMS_CONNECTED else VOLD_EVT_UMS_DISCONNECTED]\<rparr>)"

text \<open>
  Both parameters are fetched first; \<^verbatim>\<open>state\<close> is read only when the name is
  \<^verbatim>\<open>usb_mass_storage\<close>.
\<close>

definition handle_switch_event :: "ums_state \<Rightarrow> uevent \<Rightarrow> int outcome \<times> ums_state" where
  "handle_switch_event u event =
     (let name = get_uevent_param event ''SWITCH_NAME'';
          state = get_uevent_param event ''SWITCH_STATE''
      in case deref name of
           Fault f \<Rightarrow> (Fault f, u)
         | Ret nm \<Rightarrow>
             if nm = ''usb_mass_storage'' then
               (case deref state of
                  Fault f \<Rightarrow> (Fault f, u)
                | Ret st \<Rightarrow>
                    if st = ''online'' then (Ret 0, ums_hostconnected_set True u)
                    else (Ret 0, ums_hostconnected_set False u))
             else (Ret 0, u))"

subsection \<open>\<^verbatim>\<open>dispatch_uevent\<close> and \<^verbatim>\<open>process_uevent_message\<close>\<close>

text \<open>
  The loop over \<^verbatim>\<open>dispatch_table\<close>, in the order of the table; \<^verbatim>\<open>strcmp\<close> reads
  \<^verbatim>\<open>event->subsystem\<close> unchecked. The battery and power-supply handlers only dump
  the event and return 0, the bdi handler returns 0, and so does the dispatcher when no
  entry matches. The state is the state of the collaborators with the two flags of
  \<^verbatim>\<open>ums.c\<close>.
\<close>

definition dispatch_uevent ::
  "('w, 'b, 'm) collab \<Rightarrow> 'w \<times> ums_state \<Rightarrow> uevent
   \<Rightarrow> int outcome \<times> ('w \<times> ums_state) \<times> ('b, 'm) call list" where
  "dispatch_uevent C st event =
     (case subsystem event of
        None \<Rightarrow> (Fault NullDereference, st, [])
      | Some sub \<Rightarrow>
          if sub = ''switch'' then
            (case handle_switch_event (snd st) event of (r, u) \<Rightarrow> (r, (fst st, u), []))
          else if sub = ''battery'' then (Ret 0, st, [])
          else if sub = ''mmc'' then
            (case handle_mmc_event C (fst st) event of (r, w, t) \<Rightarrow> (r, (w, snd st), t))
          else if sub = ''block'' then
            (case handle_block_event C (fst st) event of (r, w, t) \<Rightarrow> (r, (w, snd st), t))
          else if sub = ''bdi'' then (Ret 0, st, [])
          else if sub = ''power_supply'' then (Ret 0, st, [])
          else (Ret 0, st, []))"

text \<open>
  The whole function, from the bytes \<^verbatim>\<open>recv\<close> delivered (\<open>count\<close> of them, at the
  start of \<open>buffer\<close>): the parsing loop, then the dispatch. The first component of
  the result is the read extent of the parsing loop, the second the value returned.
\<close>

definition process_uevent_message ::
  "('w, 'b, 'm) collab \<Rightarrow> 'w \<times> ums_state \<Rightarrow> char list \<Rightarrow> nat
   \<Rightarrow> nat \<times> int outcome \<times> ('w \<times> ums_state) \<times> ('b, 'm) call list" where
  "process_uevent_message C st buffer count =
     (case parse_uevent buffer count of
        (hi, Fault f) \<Rightarrow> (hi, Fault f, st, [])
      | (hi, Ret event) \<Rightarrow> (hi, dispatch_uevent C st event))"

subsection \<open>Messages and event sequences\<close>

text \<open>A message on the wire: the strings one after another, each followed by its NUL.\<close>

definition message :: "string list \<Rightarrow> char list" where
  "message strs = concat (map (\<lambda>f. f @ [NUL]) strs)"

text \<open>
  A string of a message that goes to \<open>param\<close>: one that starts with none of
  \<^verbatim>\<open>ACTION=\<close>, \<^verbatim>\<open>SEQNUM=\<close>, \<^verbatim>\<open>SUBSYSTEM=\<close>.
\<close>

definition plain_param :: "string \<Rightarrow> bool" where
  "plain_param f =
     (take 7 f \<noteq> ''ACTION='' \<and> take 7 f \<noteq> ''SEQNUM='' \<and> take 10 f \<noteq> ''SUBSYSTEM='')"

text \<open>
  Modelled from the spec: the receive loop is not in \<^verbatim>\<open>uevent.c\<close>. Events are
  handled one after another on the state the previous one left; an error result does
  not stop the loop, a fault (the process has crashed) does. The result is the final
  state and the calls all the handlers made, in order.
\<close>

fun run_block_events ::
  "('w, 'b, 'm) collab \<Rightarrow> 'w \<Rightarrow> uevent list \<Rightarrow> 'w \<times> ('b, 'm) call list" where
  "run_block_events C w [] = (w, [])"
| "run_block_events C w (e # es) =
     (case handle_block_event C w e of
        (Fault f, w1, t1) \<Rightarrow> (w1, t1)
      | (Ret rc, w1, t1) \<Rightarrow>
          (case run_block_events C w1 es of (w2, t2) \<Rightarrow> (w2, t1 @ t2)))"

definition is_consider_disk :: "('b, 'm) call \<Rightarrow> bool" where
  "is_consider_disk c = (case c of Call_volmgr_consider_disk d \<Rightarrow> True | _ \<Rightarrow> False)"

definition is_destroy :: "('b, 'm) call \<Rightarrow> bool" where
  "is_destroy c =
     (case c of Call_blkdev_destroy d \<Rightarrow> True | Call_media_remove_blkdev m d \<Rightarrow> True
      | _ \<Rightarrow> False)"

subsection \<open>A table-based stand-in for the collaborators\<close>

text \<open>
  Modelled from the spec: the block-device table, the media table and the volume manager
  are not in \<^verbatim>\<open>uevent.c\<close>. This stand-in follows the interfaces the specification
  lists and serves to run the handlers on concrete events; the theorems about the
  handlers hold for every implementation of the collaborators.
  \<^item> A block device is identified by its (major, minor); the table keeps its device
    path, \<open>None\<close> for a placeholder whose own add event has not arrived.
  \<^item> Creating a disk enumerates its partitions: \<open>partition_table\<close> gives, for the major
    of a disk, the minors its partition table lists, and every listed partition that is
    not registered yet is registered as a placeholder. Creating a partition registers
    that partition only.
  \<^item> A media is identified by its path and keeps the devices attached to it.
  \<^item> The parent disk of (major, minor) is (major, 0); the pending-partition count of a
    disk is the number of placeholders with its major and a minor other than 0.
  \<^item> Truncating a path to \<open>n\<close> components keeps its first \<open>n\<close> components.
  \<^item> The volume manager accepts every call.
\<close>

type_synonym devno = "int \<times> int"

record registry =
  medias :: "(string \<times> devno list) list"
  blkdevs :: "(devno \<times> string option) list"
  partition_table :: "(int \<times> int list) list"

fun take_components :: "nat \<Rightarrow> string \<Rightarrow> string" where
  "take_components n [] = []"
| "take_components n (c # cs) =
     (if c = CHR ''/'' then (case n of 0 \<Rightarrow> [] | Suc m \<Rightarrow> c # take_components m cs)
      else c # take_components n cs)"

definition registry_pending :: "registry \<Rightarrow> devno \<Rightarrow> int" where
  "registry_pending w disk =
     int (length (filter (\<lambda>(d, p). fst d = fst disk \<and> snd d \<noteq> 0 \<and> p = None) (blkdevs w)))"

definition registry_placeholders :: "registry \<Rightarrow> int \<Rightarrow> cptr \<Rightarrow> (devno \<times> string option) list" where
  "registry_placeholders w maj ty =
     (if ty = Ptr ''disk'' then
        map (\<lambda>k. ((maj, k), None))
          (filter (\<lambda>k. map_of (blkdevs w) (maj, k) = None)
             (case map_of (partition_table w) maj of None \<Rightarrow> [] | Some ks \<Rightarrow> ks))
      else [])"

definition registry_collab :: "(registry, devno, string) collab" where
  "registry_collab =
     \<lparr>truncate_sysfs_path =
        (\<lambda>p n. case p of None \<Rightarrow> [] | Some s \<Rightarrow> take_components (nat n) s),
      media_lookup_by_path =
        (\<lambda>w p fuzzy. case p of None \<Rightarrow> None
           | Some s \<Rightarrow> (case map_of (medias w) s of None \<Rightarrow> None | Some ds \<Rightarrow> Some s)),
      media_lookup_by_dev =
        (\<lambda>w d. map_option fst (find (\<lambda>(m, ds). d \<in> set ds) (medias w))),
      media_create =
        (\<lambda>w p name serial. case p of None \<Rightarrow> (None, w)
           | Some s \<Rightarrow> (Some s, w\<lparr>medias := medias w @ [(s, [])]\<rparr>)),
      media_destroy = (\<lambda>w m. w\<lparr>medias := filter (\<lambda>(k, ds). k \<noteq> m) (medias w)\<rparr>),
      media_add_blkdev =
        (\<lambda>w m d. (0, w\<lparr>medias := map (\<lambda>(k, ds). if k = m then (k, ds @ [d]) else (k, ds))
                                    (medias w)\<rparr>)),
      media_remove_blkdev =
        (\<lambda>w m d. w\<lparr>medias := map (\<lambda>(k, ds). if k = m then (k, removeAll d ds) else (k, ds))
                               (medias w)\<rparr>),
      blkdev_lookup_by_devno =
        (\<lambda>w maj min'. case map_of (blkdevs w) (maj, min') of None \<Rightarrow> None
           | Some p \<Rightarrow> Some (maj, min')),
      blkdev_create =
        (\<lambda>w disk p maj min' m ty.
           (Some (maj, min'),
            w\<lparr>blkdevs := blkdevs w @ [((maj, min'), p)] @ registry_placeholders w maj ty\<rparr>)),
      blkdev_devpath_set =
        (\<lambda>w d p. w\<lparr>blkdevs := map (\<lambda>(k, q). if k = d then (k, p) else (k, q)) (blkdevs w)\<rparr>),
      blkdev_disk = (\<lambda>w d. (fst d, 0)),
      blkdev_get_num_pending_partitions = registry_pending,
      blkdev_destroy = (\<lambda>w d. w\<lparr>blkdevs := filter (\<lambda>(k, q). k \<noteq> d) (blkdevs w)\<rparr>),
      volmgr_consider_disk = (\<lambda>w d. (0, w)),
      volmgr_notify_eject = (\<lambda>w d. (0, w)),
      read_sysfs_var = (\<lambda>w p a. ''0'')\<rparr>"

text \<open>Events as the parser builds them: the parameters in the first slots of \<open>param\<close>.\<close>

definition mk_event :: "string \<Rightarrow> uevent_action \<Rightarrow> string \<Rightarrow> string list \<Rightarrow> uevent" where
  "mk_event subsys act pth params =
     \<lparr>path = Some pth, action = act, subsystem = Some subsys,
      param = map Some params @ replicate (UEVENT_PARAMS_MAX - length params) None,
      seqnum = 0\<rparr>"

subsection \<open>Concrete events and states\<close>

definition switch_offline_event :: uevent where
  "switch_offline_event =
     mk_event ''switch'' action_change ''/devices/virtual/switch/usb_mass_storage''
       [''SWITCH_NAME=usb_mass_storage'', ''SWITCH_STATE=offline'']"

definition ums_sharing :: ums_state where
  "ums_sharing = \<lparr>host_connected = True, ums_enabled = True, sent = []\<rparr>"


definition empty_registry :: registry where
  "empty_registry = \<lparr>medias = [], blkdevs = [], partition_table = []\<rparr>"

definition orphan_registry :: registry where
  "orphan_registry =
     \<lparr>medias = [], blkdevs = [((179, 1), Some ''/block/mmcblk0/mmcblk0p1'')],
      partition_table = [(179, [1])]\<rparr>"

definition card_registry :: registry where
  "card_registry =
     \<lparr>medias = [(''/block/mmcblk0/mmcblk0p1'', [(179, 1)])],
      blkdevs = [((179, 0), Some ''/block/mmcblk0''),
                 ((179, 1), Some ''/block/mmcblk0/mmcblk0p1'')],
      partition_table = [(179, [1])]\<rparr>"

definition part_remove_event :: uevent where
  "part_remove_event =
     mk_event ''block'' action_remove ''/block/mmcblk0/mmcblk0p1''
       [''DEVTYPE=partition'', ''MAJOR=179'', ''MINOR=1'']"

definition floppy_remove_event :: uevent where
  "floppy_remove_event =
     mk_event ''block'' action_remove ''/block/fd0''
       [''DEVTYPE=floppy'', ''MAJOR=2'', ''MINOR=0'']"



definition mmc_remove_event :: uevent where
  "mmc_remove_event =
     mk_event ''mmc'' action_remove ''/devices/platform/mmc0/mmc0:0001'' []"

definition disk_add_event :: uevent where
  "disk_add_event =
     mk_event ''block'' action_add ''/block/mmcblk0''
       [''DEVTYPE=disk'', ''MAJOR=179'', ''MINOR=0'']"

definition msg33 :: "char list" where
  "msg33 = message (''X@/p'' # replicate 33 ''A=1'')"

definition no_at_buffer :: "char list" where
  "no_at_buffer = ''X'' @ [NUL] @ ''SUBSYSTEM=bdi'' @ [NUL] @ ''@/p'' @ [NUL]"


definition media_only_registry :: registry where
  "media_only_registry =
     \<lparr>medias = [(''/block/mmcblk0/mmcblk0p1'', [])], blkdevs = [], partition_table = []\<rparr>"

definition tracked_registry :: registry where
  "tracked_registry =
     \<lparr>medias = [(''/block/mmcblk0'', []), (''/block/mmcblk0/mmcblk0p1'', []),
                (''/block/mmcblk0/mmcblk0p2'', [])],
      blkdevs = [], partition_table = [(179, [1, 2])]\<rparr>"

definition part_add_event :: uevent where
  "part_add_event =
     mk_event ''block'' action_add ''/block/mmcblk0/mmcblk0p1''
       [''DEVTYPE=partition'', ''MAJOR=179'', ''MINOR=1'']"

definition part2_add_event :: uevent where
  "part2_add_event =
     mk_event ''block'' action_add ''/block/mmcblk0/mmcblk0p2''
       [''DEVTYPE=partition'', ''MAJOR=179'', ''MINOR=2'']"

section \<open>Theorems\<close>

subsection \<open>The parser on concrete messages\<close>

text \<open>
  C4. Parsing the example message over its whole length yields the path
  \<open>/devices/foo\<close>, the action Add, the subsystem \<open>block\<close>, the sequence number 5,
  and the three strings \<open>DEVTYPE=disk\<close>, \<open>MAJOR=8\<close>, \<open>MINOR=0\<close> in the first
  three slots of \<open>param\<close> in that order (the other 29 slots stay \<^verbatim>\<open>NULL\<close>).
\<close>

theorem parse_example_message:
  "parse_uevent example_message (length example_message) =
     (length example_message,
      Ret \<lparr>path = Some ''/devices/foo'', action = action_add, subsystem = Some ''block'',
           param = [Some ''DEVTYPE=disk'', Some ''MAJOR=8'', Some ''MINOR=0'']
                   @ replicate 29 None,
           seqnum = 5\<rparr>)"
  by code_simp

text \<open>
  C5. The claim is that more than 32 plain parameters are cut down to the first 32 and
  parsing still succeeds. On a message with the path string and 33 strings \<open>A=1\<close> the
  parser reads the whole message and, at the 33rd, performs the store
  \<^verbatim>\<open>event->param[32] = strdup(s)\<close>, which lies outside \<^verbatim>\<open>param[UEVENT_PARAMS_MAX]\<close>:
  nothing is dropped and no event is produced by a defined execution.
\<close>

theorem parse_overflow_33_params:
  "parse_uevent msg33 (length msg33) = (length msg33, Fault ParamStoreOutsideArray)"
  by code_simp

subsection \<open>The parser: reads and the declared length\<close>

lemma scan_for_SomeD: "scan_for c xs = Some k \<Longrightarrow> k < length xs \<and> xs ! k = c"
  by (induction xs arbitrary: k) (auto split: if_splits)

lemma scan_for_le: "j < length xs \<Longrightarrow> xs ! j = c \<Longrightarrow> \<exists>k\<le>j. scan_for c xs = Some k"
proof (induction xs arbitrary: j)
  case Nil
  then show ?case by simp
next
  case (Cons x xs)
  show ?case
  proof (cases "x = c")
    case True
    then show ?thesis by simp
  next
    case False
    with Cons.prems obtain j' where j: "j = Suc j'" by (cases j) auto
    with Cons.prems have "j' < length xs" "xs ! j' = c" by auto
    from Cons.IH [OF this] obtain k where "k \<le> j'" "scan_for c xs = Some k" by blast
    with False j show ?thesis by auto
  qed
qed

lemma c_strlen_bounded:
  assumes "s < e" "e \<le> length buf" "buf ! (e - 1) = NUL"
  shows "\<exists>n. c_strlen buf s = Some n \<and> s + n < e"
proof -
  have "e - 1 - s < length (drop s buf)" using assms by simp
  moreover have "drop s buf ! (e - 1 - s) = NUL" using assms by simp
  ultimately obtain k where "k \<le> e - 1 - s" "scan_for NUL (drop s buf) = Some k"
    using scan_for_le by blast
  then show ?thesis using assms by (auto simp add: c_strlen_def)
qed

lemma c_str_length: "c_str buf s = Some str \<Longrightarrow> c_strlen buf s = Some (length str)"
proof -
  assume "c_str buf s = Some str"
  then obtain n where n: "scan_for NUL (drop s buf) = Some n" "str = take n (drop s buf)"
    by (auto simp add: c_str_def c_strlen_def)
  from scan_for_SomeD [OF n(1)] have "n < length (drop s buf)" by simp
  with n show ?thesis by (simp add: c_strlen_def)
qed

lemma parse_loop_done:
  "\<not> s < e \<Longrightarrow> parse_loop buf e s first idx ev hi = (hi, Ret ev)"
  by (subst parse_loop.simps) simp

lemma parse_loop_step:
  "s < e \<Longrightarrow> c_str buf s = Some str \<Longrightarrow>
   parse_loop buf e s False idx ev hi =
     (case parse_field str idx ev of
        Fault f \<Rightarrow> (max hi (s + length str + 1), Fault f)
      | Ret (idx', ev') \<Rightarrow>
          parse_loop buf e (s + length str + 1) False idx' ev' (max hi (s + length str + 1)))"
  by (subst parse_loop.simps) simp

lemma parse_loop_first:
  "s < e \<Longrightarrow>
   parse_loop buf e s True idx ev hi =
     (case scan_for (CHR ''@'') (drop s buf) of
        None \<Rightarrow> (Suc (length buf), Fault ReadOutsideBuffer)
      | Some k \<Rightarrow>
          (case c_str buf (s + k + 1) of
             None \<Rightarrow> (Suc (length buf), Fault ReadOutsideBuffer)
           | Some pth \<Rightarrow>
               (case c_strlen buf s of
                  None \<Rightarrow> (Suc (length buf), Fault ReadOutsideBuffer)
                | Some n \<Rightarrow>
                    parse_loop buf e (s + n + 1) False idx (ev\<lparr>path := Some pth\<rparr>)
                      (max hi (max (s + n + 1) (s + k + 1 + length pth + 1))))))"
  by (subst parse_loop.simps) simp

lemma c_str_bounded:
  assumes "s < e" "e \<le> length buf" "buf ! (e - 1) = NUL"
  shows "\<exists>str. c_str buf s = Some str \<and> s + length str < e"
proof -
  from c_strlen_bounded [OF assms] obtain n where n: "c_strlen buf s = Some n" "s + n < e"
    by blast
  then obtain str where str: "c_str buf s = Some str" by (simp add: c_str_def)
  from c_str_length [OF str] n have "length str = n" by simp
  with str n show ?thesis by blast
qed

lemma parse_field_fault: "parse_field str idx ev = Fault f \<Longrightarrow> f = ParamStoreOutsideArray"
  by (auto simp add: parse_field_def Let_def split: if_splits)

lemma parse_loop_bounded:
  assumes "e \<le> length buf" "buf ! (e - 1) = NUL"
  shows "s \<le> e \<Longrightarrow> hi \<le> e \<Longrightarrow>
    fst (parse_loop buf e s False idx ev hi) \<le> e
    \<and> snd (parse_loop buf e s False idx ev hi) \<noteq> Fault ReadOutsideBuffer"
proof (induction "e - s" arbitrary: s idx ev hi rule: less_induct)
  case less
  show ?case
  proof (cases "s < e")
    case False
    then show ?thesis using less.prems by (simp add: parse_loop_done)
  next
    case True
    from c_str_bounded [OF True assms] obtain str where
      str: "c_str buf s = Some str" "s + length str < e" by blast
    show ?thesis
    proof (cases "parse_field str idx ev")
      case (Fault f)
      then show ?thesis
        using True str less.prems parse_field_fault [OF Fault]
        by (simp add: parse_loop_step)
    next
      case (Ret r)
      obtain idx' ev' where r: "r = (idx', ev')" by (cases r) auto
      have "fst (parse_loop buf e (s + length str + 1) False idx' ev' (max hi (s + length str + 1))) \<le> e
        \<and> snd (parse_loop buf e (s + length str + 1) False idx' ev' (max hi (s + length str + 1)))
            \<noteq> Fault ReadOutsideBuffer"
        using str less.prems True by (intro less.hyps) auto
      then show ?thesis
        using True str Ret r by (simp add: parse_loop_step)
    qed
  qed
qed

text \<open>
  C3, as amended. If the declared length \<open>count\<close> lies within the array, an
  \<^verbatim>\<open>@\<close> occurs before it and the last byte before it is a NUL, then the parser reads no
  byte at or after \<open>count\<close> (the read extent of the parsing loop, and so of
  \<^verbatim>\<open>process_uevent_message\<close>, is at most \<open>count\<close>) and no read leaves the array.
\<close>

theorem parse_reads_within_count:
  assumes len: "count \<le> length buffer"
    and at: "CHR ''@'' \<in> set (take count buffer)"
    and nul: "buffer ! (count - 1) = NUL"
  shows "fst (parse_uevent buffer count) \<le> count
       \<and> snd (parse_uevent buffer count) \<noteq> Fault ReadOutsideBuffer
       \<and> fst (process_uevent_message C st buffer count) \<le> count"
proof -
  have ext: "fst (process_uevent_message C st buffer count) = fst (parse_uevent buffer count)"
    by (simp add: process_uevent_message_def split: prod.split outcome.split)
  from at obtain j where j: "j < count" "j < length buffer" "buffer ! j = CHR ''@''"
    by (auto simp add: in_set_conv_nth)
  then obtain k where k: "k \<le> j" "scan_for (CHR ''@'') buffer = Some k"
    using scan_for_le by blast
  have pos: "0 < count" using j by simp
  have "buffer ! k = CHR ''@''" using scan_for_SomeD [OF k(2)] by simp
  with nul have "k \<noteq> count - 1" by auto
  with k j have k1: "k + 1 < count" by simp
  from c_str_bounded [OF k1 len nul] obtain pth where
    pth: "c_str buffer (k + 1) = Some pth" "k + 1 + length pth < count" by blast
  from c_strlen_bounded [OF pos len nul] obtain n where
    n: "c_strlen buffer 0 = Some n" "n < count" by auto
  have step: "parse_uevent buffer count =
      parse_loop buffer count (n + 1) False 0 (uevent_zero\<lparr>path := Some pth\<rparr>)
        (max (n + 1) (k + 1 + length pth + 1))"
    using pos k pth n by (simp add: parse_uevent_def parse_loop_first)
  have "fst (parse_uevent buffer count) \<le> count
       \<and> snd (parse_uevent buffer count) \<noteq> Fault ReadOutsideBuffer"
    unfolding step using pth n by (intro parse_loop_bounded [OF len nul]) auto
  then show ?thesis using ext by simp
qed

theorem parse_reads_within_count_witness:
  "length example_message \<le> length (example_message @ ''@stale'')
   \<and> CHR ''@'' \<in> set (take (length example_message) (example_message @ ''@stale''))
   \<and> (example_message @ ''@stale'') ! (length example_message - 1) = NUL
   \<and> fst (parse_uevent (example_message @ ''@stale'') (length example_message))
       \<le> length example_message
   \<and> snd (parse_uevent (example_message @ ''@stale'') (length example_message))
       \<noteq> Fault ReadOutsideBuffer
   \<and> fst (process_uevent_message registry_collab (empty_registry, ums_sharing)
             (example_message @ ''@stale'') (length example_message))
       \<le> length example_message"
proof -
  have h1: "length example_message \<le> length (example_message @ ''@stale'')" by simp
  have h2: "CHR ''@'' \<in> set (take (length example_message) (example_message @ ''@stale''))"
    by (simp add: example_message_def)
  have h3: "(example_message @ ''@stale'') ! (length example_message - 1) = NUL"
    by code_simp
  from h1 h2 h3
    parse_reads_within_count [OF h1 h2 h3, of registry_collab "(empty_registry, ums_sharing)"]
  show ?thesis by - (intro conjI; (elim conjE)?; assumption)
qed

text \<open>
  C3 as stated fails on the array \<open>X\<close>, NUL, \<open>SUBSYSTEM=bdi\<close>, NUL, \<open>@/p\<close>, NUL
  with the declared length 16, which ends after the second NUL. The first string is
  \<open>X\<close>, without \<^verbatim>\<open>@\<close>. The scan for \<^verbatim>\<open>@\<close> runs over the NUL and past the
  declared length to index 16, and the path \<open>/p\<close> is copied from the indices 17 to 19:
  the read extent is 20. The parser builds an event, the bdi handler gets it, and
  \<^verbatim>\<open>process_uevent_message\<close> returns 0, not an error.
\<close>

theorem parse_no_at_counterexample:
  "c_str no_at_buffer 0 = Some ''X''
   \<and> parse_uevent no_at_buffer 16 =
       (20, Ret (uevent_zero\<lparr>path := Some ''/p'', subsystem := Some ''bdi''\<rparr>))
   \<and> process_uevent_message registry_collab (empty_registry, ums_sharing) no_at_buffer 16 =
       (20, Ret 0, (empty_registry, ums_sharing), [])"
  by code_simp

subsection \<open>The parser: an action that is not recognised\<close>

lemma message_Cons: "message (f # fs) = f @ NUL # message fs"
  by (simp add: message_def)

lemma scan_for_append_notin:
  "c \<notin> set xs \<Longrightarrow> scan_for c (xs @ c # ys) = Some (length xs)"
  by (induction xs) auto

lemma scan_for_append_in:
  "c \<in> set xs \<Longrightarrow> scan_for c (xs @ ys) = scan_for c xs"
  by (induction xs) auto

lemma c_str_at_field:
  "NUL \<notin> set f \<Longrightarrow> c_str (pre @ f @ NUL # post) (length pre) = Some f"
  by (simp add: c_str_def c_strlen_def scan_for_append_notin)

lemma parse_field_unknown_action:
  assumes "take 7 f = ''ACTION='' \<longrightarrow> drop 7 f \<notin> {''add'', ''change'', ''remove''}"
    and "action ev = action_add"
    and "idx + length (filter plain_param (f # fs)) \<le> UEVENT_PARAMS_MAX"
  shows "\<exists>idx' ev'. parse_field f idx ev = Ret (idx', ev') \<and> action ev' = action_add
           \<and> idx' + length (filter plain_param fs) \<le> UEVENT_PARAMS_MAX"
  using assms by (auto simp add: parse_field_def plain_param_def Let_def split: if_splits)

lemma parse_loop_unknown_action:
  assumes "\<forall>f\<in>set fs. NUL \<notin> set f"
    and "\<forall>f\<in>set fs. take 7 f = ''ACTION='' \<longrightarrow> drop 7 f \<notin> {''add'', ''change'', ''remove''}"
    and "action ev = action_add"
    and "idx + length (filter plain_param fs) \<le> UEVENT_PARAMS_MAX"
  shows "\<exists>ev'. snd (parse_loop (pre @ message fs) (length (pre @ message fs)) (length pre)
                      False idx ev hi) = Ret ev'
           \<and> action ev' = action_add"
  using assms
proof (induction fs arbitrary: pre idx ev hi)
  case Nil
  then show ?case by (simp add: message_def parse_loop_done)
next
  case (Cons f fs)
  have nul: "NUL \<notin> set f" using Cons.prems(1) by simp
  have act: "take 7 f = ''ACTION='' \<longrightarrow> drop 7 f \<notin> {''add'', ''change'', ''remove''}"
    using Cons.prems(2) by simp
  from parse_field_unknown_action [OF act Cons.prems(3) Cons.prems(4)]
  obtain idx' ev1 where pf: "parse_field f idx ev = Ret (idx', ev1)"
    and a1: "action ev1 = action_add"
    and i1: "idx' + length (filter plain_param fs) \<le> UEVENT_PARAMS_MAX" by blast
  have str: "c_str (pre @ message (f # fs)) (length pre) = Some f"
    using nul by (simp add: message_Cons c_str_at_field)
  have lt: "length pre < length (pre @ message (f # fs))" by (simp add: message_Cons)
  have re: "(pre @ f @ [NUL]) @ message fs = pre @ message (f # fs)"
    by (simp add: message_Cons)
  have le: "length (pre @ f @ [NUL]) = length pre + length f + 1" by simp
  have "\<exists>ev'. snd (parse_loop ((pre @ f @ [NUL]) @ message fs)
                      (length ((pre @ f @ [NUL]) @ message fs)) (length (pre @ f @ [NUL]))
                      False idx' ev1 (max hi (length pre + length f + 1))) = Ret ev'
           \<and> action ev' = action_add"
    using Cons.prems(1,2) a1 i1 by (intro Cons.IH) auto
  then have ih: "\<exists>ev'. snd (parse_loop (pre @ message (f # fs))
                      (length (pre @ message (f # fs))) (length pre + length f + 1)
                      False idx' ev1 (max hi (length pre + length f + 1))) = Ret ev'
           \<and> action ev' = action_add"
    unfolding re le .
  have eq: "parse_loop (pre @ message (f # fs)) (length (pre @ message (f # fs))) (length pre)
              False idx ev hi =
            parse_loop (pre @ message (f # fs)) (length (pre @ message (f # fs)))
              (length pre + length f + 1) False idx' ev1 (max hi (length pre + length f + 1))"
    using parse_loop_step [OF lt str, of idx ev hi] pf by simp
  show ?case unfolding eq by (rule ih)
qed

text \<open>
  C8. Take any message made of a first string with an \<^verbatim>\<open>@\<close> and further strings
  (none containing a NUL, at most 32 of them plain parameters), parsed over its whole
  length. If every string that starts with \<^verbatim>\<open>ACTION=\<close> has a value other than
  \<open>add\<close>, \<open>change\<close> and \<open>remove\<close>, the parser returns an event, with no error, and
  the action of that event is \<^verbatim>\<open>action_add\<close>, the value the zeroed event started with.
\<close>

theorem unknown_action_defaults_to_add:
  assumes "CHR ''@'' \<in> set first" and "NUL \<notin> set first"
    and "\<forall>f\<in>set rest. NUL \<notin> set f"
    and "\<forall>f\<in>set rest. take 7 f = ''ACTION='' \<longrightarrow> drop 7 f \<notin> {''add'', ''change'', ''remove''}"
    and "length (filter plain_param rest) \<le> UEVENT_PARAMS_MAX"
  shows "\<exists>ev. snd (parse_uevent (message (first # rest)) (length (message (first # rest))))
                = Ret ev
          \<and> action ev = action_add"
proof -
  let ?buf = "message (first # rest)"
  from assms(1) obtain k where k: "scan_for (CHR ''@'') first = Some k"
    using scan_for_le by (fastforce simp add: in_set_conv_nth)
  from scan_for_SomeD [OF k] have kl: "k < length first" by simp
  have sc: "scan_for (CHR ''@'') ?buf = Some k"
    using assms(1) k by (simp add: message_Cons scan_for_append_in)
  have "NUL \<notin> set (drop (k + 1) first)"
    using assms(2) by (meson in_set_dropD)
  then have "c_str (take (k + 1) first @ drop (k + 1) first @ NUL # message rest)
               (length (take (k + 1) first)) = Some (drop (k + 1) first)"
    by (rule c_str_at_field)
  moreover have "length (take (k + 1) first) = k + 1" using kl by simp
  moreover have "take (k + 1) first @ drop (k + 1) first @ NUL # message rest = ?buf"
    by (metis append_assoc append_take_drop_id message_Cons)
  ultimately have pth: "c_str ?buf (k + 1) = Some (drop (k + 1) first)" by simp
  have "c_str ([] @ first @ NUL # message rest) (length ([] :: char list)) = Some first"
    using assms(2) by (rule c_str_at_field)
  then have "c_str ?buf 0 = Some first" by (simp add: message_Cons)
  then have n: "c_strlen ?buf 0 = Some (length first)" by (rule c_str_length)
  have pos: "0 < length ?buf" by (simp add: message_Cons)
  have step: "parse_uevent ?buf (length ?buf) =
      parse_loop ((first @ [NUL]) @ message rest) (length ((first @ [NUL]) @ message rest))
        (length (first @ [NUL])) False 0 (uevent_zero\<lparr>path := Some (drop (k + 1) first)\<rparr>)
        (max (length first + 1) (k + 1 + length (drop (k + 1) first) + 1))"
    using pos sc pth n by (simp add: parse_uevent_def parse_loop_first message_Cons)
  have "action (uevent_zero\<lparr>path := Some (drop (k + 1) first)\<rparr>) = action_add"
    by (simp add: uevent_zero_def)
  from parse_loop_unknown_action [OF assms(3) assms(4) this, of 0 "first @ [NUL]"] assms(5)
  show ?thesis unfolding step by simp
qed


theorem unknown_action_defaults_to_add_witness:
  "CHR ''@'' \<in> set ''X@/devices/foo'' \<and> NUL \<notin> set ''X@/devices/foo''
   \<and> take 7 ''ACTION=online'' = ''ACTION='' \<and> drop 7 ''ACTION=online'' = ''online''
   \<and> length (filter plain_param [''ACTION=online'', ''SUBSYSTEM=block'', ''DEVTYPE=disk''])
       \<le> UEVENT_PARAMS_MAX
   \<and> (\<exists>ev. snd (parse_uevent
                  (message [''X@/devices/foo'', ''ACTION=online'', ''SUBSYSTEM=block'',
                            ''DEVTYPE=disk''])
                  (length (message [''X@/devices/foo'', ''ACTION=online'', ''SUBSYSTEM=block'',
                                    ''DEVTYPE=disk'']))) = Ret ev
          \<and> action ev = action_add)"
proof -
  have h1: "CHR ''@'' \<in> set ''X@/devices/foo''" by simp
  have h2: "NUL \<notin> set ''X@/devices/foo''" by simp
  have h3: "\<forall>f\<in>set [''ACTION=online'', ''SUBSYSTEM=block'', ''DEVTYPE=disk'']. NUL \<notin> set f"
    by simp
  have h4: "\<forall>f\<in>set [''ACTION=online'', ''SUBSYSTEM=block'', ''DEVTYPE=disk''].
         take 7 f = ''ACTION='' \<longrightarrow> drop 7 f \<notin> {''add'', ''change'', ''remove''}"
    by simp
  have h5: "length (filter plain_param [''ACTION=online'', ''SUBSYSTEM=block'', ''DEVTYPE=disk''])
       \<le> UEVENT_PARAMS_MAX"
    by (simp add: plain_param_def UEVENT_PARAMS_MAX_def)
  have h6: "take 7 ''ACTION=online'' = ''ACTION=''" by simp
  have h7: "drop 7 ''ACTION=online'' = ''online''" by simp
  from h1 h2 h5 h6 h7 unknown_action_defaults_to_add [OF h1 h2 h3 h4 h5]
  show ?thesis by - (intro conjI; assumption)
qed

subsection \<open>The block handler: device type and removal\<close>


lemma block_event_media_prefix:
  "\<exists>r w' t. block_event_media C w event n =
     (r, w', [Call_truncate_sysfs_path (path event) n,
              Call_media_lookup_by_path (Some (truncate_sysfs_path C (path event) n))] @ t)"
  by (simp add: block_event_media_def Let_def split: option.split outcome.split prod.split)

lemma block_event_media_untracked:
  "media_lookup_by_path C w (Some (truncate_sysfs_path C (path event) n)) False = None \<Longrightarrow>
   block_event_media C w event n =
     (Ret 0, w, [Call_truncate_sysfs_path (path event) n,
                 Call_media_lookup_by_path (Some (truncate_sysfs_path C (path event) n))])"
  by (simp add: block_event_media_def Let_def)

lemma block_event_media_remove:
  "media_lookup_by_path C w (Some (truncate_sysfs_path C (path event) n)) False = Some media \<Longrightarrow>
   get_uevent_param event ''MAJOR'' = Ptr majs \<Longrightarrow>
   get_uevent_param event ''MINOR'' = Ptr mins \<Longrightarrow>
   action event = action_remove \<Longrightarrow>
   block_event_media C w event n =
     (case block_event_remove C w (atoi majs) (atoi mins) of
        (r, w1, t1) \<Rightarrow>
          (r, w1, [Call_truncate_sysfs_path (path event) n,
                   Call_media_lookup_by_path (Some (truncate_sysfs_path C (path event) n))] @ t1))"
  by (simp add: block_event_media_def Let_def)

lemma handle_block_event_depth:
  "get_uevent_param event ''DEVTYPE'' = Ptr ty \<Longrightarrow> ty = ''disk'' \<or> ty = ''partition'' \<Longrightarrow>
   handle_block_event C w event =
     block_event_media C w event (if ty = ''disk'' then 2 else 3)"
  by (auto simp add: handle_block_event_def)

lemma block_event_attach_no_destroy:
  "block_event_attach C w media blkdev pending = (r, w', t) \<Longrightarrow> filter is_destroy t = []"
  by (auto simp add: block_event_attach_def is_destroy_def Let_def split: prod.splits if_splits)

lemma block_event_add_no_destroy:
  "block_event_add C w event media maj mn = (r, w', t) \<Longrightarrow> filter is_destroy t = []"
  by (auto simp add: block_event_add_def is_destroy_def Let_def
      split: prod.splits option.splits dest: block_event_attach_no_destroy)

lemma block_event_remove_no_destroy:
  "block_event_remove C w maj mn = (r, w', t) \<Longrightarrow> filter is_destroy t = []"
  by (auto simp add: block_event_remove_def is_destroy_def split: prod.splits option.splits)

lemma block_event_media_no_destroy:
  "block_event_media C w event n = (r, w', t) \<Longrightarrow> filter is_destroy t = []"
  by (auto simp add: block_event_media_def is_destroy_def Let_def
      split: prod.splits option.splits outcome.splits if_splits
      dest: block_event_add_no_destroy block_event_remove_no_destroy)

lemma handle_block_event_no_destroy:
  "handle_block_event C w event = (r, w', t) \<Longrightarrow> filter is_destroy t = []"
  by (auto simp add: handle_block_event_def
      split: outcome.splits if_splits dest: block_event_media_no_destroy)


lemma part_remove_params:
  "action part_remove_event = action_remove"
  "get_uevent_param part_remove_event ''DEVTYPE'' = Ptr ''partition''"
  "get_uevent_param part_remove_event ''MAJOR'' = Ptr ''179''"
  "get_uevent_param part_remove_event ''MINOR'' = Ptr ''1''"
  "path part_remove_event = Some ''/block/mmcblk0/mmcblk0p1''"
  by code_simp+

lemma atoi_examples: "atoi ''179'' = 179" "atoi ''1'' = 1" "atoi ''0'' = 0"
  by code_simp+

text \<open>
  C6. For every block event that carries a \<^verbatim>\<open>DEVTYPE\<close> value: with the value
  \<open>disk\<close> the first two calls of the handler are \<^verbatim>\<open>truncate_sysfs_path\<close> on the event
  path with depth 2 and the media lookup on its result; with \<open>partition\<close> the same with
  depth 3; with any other value the handler returns \<open>-EINVAL\<close> without any call to a
  collaborator and with the state unchanged.
\<close>

theorem block_devtype_depth:
  assumes "get_uevent_param event ''DEVTYPE'' = Ptr ty"
  shows "(ty = ''disk'' \<longrightarrow>
            take 2 (snd (snd (handle_block_event C w event))) =
              [Call_truncate_sysfs_path (path event) 2,
               Call_media_lookup_by_path (Some (truncate_sysfs_path C (path event) 2))])
       \<and> (ty = ''partition'' \<longrightarrow>
            take 2 (snd (snd (handle_block_event C w event))) =
              [Call_truncate_sysfs_path (path event) 3,
               Call_media_lookup_by_path (Some (truncate_sysfs_path C (path event) 3))])
       \<and> (ty \<noteq> ''disk'' \<and> ty \<noteq> ''partition'' \<longrightarrow>
            handle_block_event C w event = (Ret (- EINVAL), w, []))"
proof -
  have two: "take 2 (snd (snd (block_event_media C w event n))) =
      [Call_truncate_sysfs_path (path event) n,
       Call_media_lookup_by_path (Some (truncate_sysfs_path C (path event) n))]" for n
    using block_event_media_prefix [of C w event n] by auto
  show ?thesis
    using assms by (simp add: handle_block_event_def two)
qed

theorem block_devtype_depth_witness:
  "get_uevent_param disk_add_event ''DEVTYPE'' = Ptr ''disk''
   \<and> take 2 (snd (snd (handle_block_event registry_collab empty_registry disk_add_event))) =
       [Call_truncate_sysfs_path (path disk_add_event) 2,
        Call_media_lookup_by_path
          (Some (truncate_sysfs_path registry_collab (path disk_add_event) 2))]
   \<and> get_uevent_param part_remove_event ''DEVTYPE'' = Ptr ''partition''
   \<and> take 2 (snd (snd (handle_block_event registry_collab empty_registry part_remove_event))) =
       [Call_truncate_sysfs_path (path part_remove_event) 3,
        Call_media_lookup_by_path
          (Some (truncate_sysfs_path registry_collab (path part_remove_event) 3))]
   \<and> get_uevent_param floppy_remove_event ''DEVTYPE'' = Ptr ''floppy''
   \<and> handle_block_event registry_collab empty_registry floppy_remove_event =
       (Ret (- EINVAL), empty_registry, [])"
proof -
  have d: "get_uevent_param disk_add_event ''DEVTYPE'' = Ptr ''disk''" by code_simp
  have p: "get_uevent_param part_remove_event ''DEVTYPE'' = Ptr ''partition''" by code_simp
  have f: "get_uevent_param floppy_remove_event ''DEVTYPE'' = Ptr ''floppy''" by code_simp
  show ?thesis
    using d p f
      block_devtype_depth [OF d, of registry_collab empty_registry]
      block_devtype_depth [OF p, of registry_collab empty_registry]
      block_devtype_depth [OF f, of registry_collab empty_registry]
    by simp
qed

text \<open>
  C1, as amended. For every block event with action Remove whose \<^verbatim>\<open>DEVTYPE\<close> is
  \<open>disk\<close> or \<open>partition\<close> (\<open>n\<close> is the depth, \<open>c\<close> the two calls that resolve the
  media):
  \<^item> if no media is tracked at the truncated path, the handler returns 0 after these two
    calls and changes nothing, whether or not the device is registered;
  \<^item> if one is tracked and the event carries \<^verbatim>\<open>MAJOR\<close> and \<^verbatim>\<open>MINOR\<close>: for an
    unregistered (major, minor) the handler returns 0 after the lookup and changes
    nothing; for a registered one it makes exactly one \<^verbatim>\<open>volmgr_notify_eject\<close> call,
    its last call, and returns 0;
  \<^item> the handler itself never calls \<^verbatim>\<open>blkdev_destroy\<close> or
    \<^verbatim>\<open>media_remove_blkdev\<close>; the callback \<^verbatim>\<open>_cb_blkdev_ok_to_destroy\<close> does: it
    detaches the device from its media, if it has one, and its last call is
    \<^verbatim>\<open>blkdev_destroy\<close>.
\<close>

theorem block_remove_two_phase:
  assumes rm: "action event = action_remove"
    and ty: "get_uevent_param event ''DEVTYPE'' = Ptr ty" "ty = ''disk'' \<or> ty = ''partition''"
    and n: "n = (if ty = ''disk'' then 2 else 3)"
    and c: "c = [Call_truncate_sysfs_path (path event) n,
                 Call_media_lookup_by_path (Some (truncate_sysfs_path C (path event) n))]"
  shows "(media_lookup_by_path C w (Some (truncate_sysfs_path C (path event) n)) False = None \<longrightarrow>
            handle_block_event C w event = (Ret 0, w, c))
       \<and> (\<forall>media majs mins.
            media_lookup_by_path C w (Some (truncate_sysfs_path C (path event) n)) False = Some media
            \<and> get_uevent_param event ''MAJOR'' = Ptr majs
            \<and> get_uevent_param event ''MINOR'' = Ptr mins \<longrightarrow>
            (case blkdev_lookup_by_devno C w (atoi majs) (atoi mins) of
               None \<Rightarrow>
                 handle_block_event C w event =
                   (Ret 0, w, c @ [Call_blkdev_lookup_by_devno (atoi majs) (atoi mins)])
             | Some dev \<Rightarrow>
                 handle_block_event C w event =
                   (Ret 0, snd (volmgr_notify_eject C w dev),
                    c @ [Call_blkdev_lookup_by_devno (atoi majs) (atoi mins),
                         Call_volmgr_notify_eject dev])))
       \<and> filter is_destroy (snd (snd (handle_block_event C w event))) = []
       \<and> (\<forall>w2 dev. fst (cb_blkdev_ok_to_destroy C w2 dev) =
              blkdev_destroy C
                (case media_lookup_by_dev C w2 dev of
                   None \<Rightarrow> w2 | Some media \<Rightarrow> media_remove_blkdev C w2 media dev) dev
            \<and> last (snd (cb_blkdev_ok_to_destroy C w2 dev)) = Call_blkdev_destroy dev)"
proof -
  have h: "handle_block_event C w event = block_event_media C w event n"
    using ty n by (simp add: handle_block_event_depth)
  have a: "media_lookup_by_path C w (Some (truncate_sysfs_path C (path event) n)) False = None \<longrightarrow>
            handle_block_event C w event = (Ret 0, w, c)"
    by (simp add: h c block_event_media_untracked)
  have b: "media_lookup_by_path C w (Some (truncate_sysfs_path C (path event) n)) False = Some media
            \<and> get_uevent_param event ''MAJOR'' = Ptr majs
            \<and> get_uevent_param event ''MINOR'' = Ptr mins \<longrightarrow>
            (case blkdev_lookup_by_devno C w (atoi majs) (atoi mins) of
               None \<Rightarrow>
                 handle_block_event C w event =
                   (Ret 0, w, c @ [Call_blkdev_lookup_by_devno (atoi majs) (atoi mins)])
             | Some dev \<Rightarrow>
                 handle_block_event C w event =
                   (Ret 0, snd (volmgr_notify_eject C w dev),
                    c @ [Call_blkdev_lookup_by_devno (atoi majs) (atoi mins),
                         Call_volmgr_notify_eject dev]))" for media majs mins
    using rm by (auto simp add: h c block_event_media_remove block_event_remove_def
        split: option.split prod.split)
  have d: "filter is_destroy (snd (snd (handle_block_event C w event))) = []"
    using handle_block_event_no_destroy [of C w event] by (metis prod.collapse)
  have e: "fst (cb_blkdev_ok_to_destroy C w2 dev) =
              blkdev_destroy C
                (case media_lookup_by_dev C w2 dev of
                   None \<Rightarrow> w2 | Some media \<Rightarrow> media_remove_blkdev C w2 media dev) dev
            \<and> last (snd (cb_blkdev_ok_to_destroy C w2 dev)) = Call_blkdev_destroy dev" for w2 dev
    by (simp add: cb_blkdev_ok_to_destroy_def split: option.split)
  from a b d e show ?thesis by blast
qed

theorem block_remove_two_phase_witness:
  "action part_remove_event = action_remove
   \<and> get_uevent_param part_remove_event ''DEVTYPE'' = Ptr ''partition''
   \<and> blkdev_lookup_by_devno registry_collab card_registry 179 1 = Some (179, 1)
   \<and> handle_block_event registry_collab card_registry part_remove_event =
       (Ret 0, card_registry,
        [Call_truncate_sysfs_path (Some ''/block/mmcblk0/mmcblk0p1'') 3,
         Call_media_lookup_by_path (Some ''/block/mmcblk0/mmcblk0p1''),
         Call_blkdev_lookup_by_devno 179 1,
         Call_volmgr_notify_eject (179, 1)])"
proof -
  have m: "media_lookup_by_path registry_collab card_registry
             (Some (truncate_sysfs_path registry_collab (path part_remove_event) 3)) False
           = Some ''/block/mmcblk0/mmcblk0p1''"
    by code_simp
  have t: "truncate_sysfs_path registry_collab (Some ''/block/mmcblk0/mmcblk0p1'') 3
           = ''/block/mmcblk0/mmcblk0p1''"
    by code_simp
  have l: "blkdev_lookup_by_devno registry_collab card_registry 179 1 = Some (179, 1)"
    by code_simp
  have v: "snd (volmgr_notify_eject registry_collab card_registry (179, 1)) = card_registry"
    by code_simp
  show ?thesis
    using block_remove_two_phase [OF part_remove_params(1) part_remove_params(2), of 3 _
        registry_collab card_registry, OF _ _ refl] m l v
    by (simp add: part_remove_params atoi_examples t)
qed

text \<open>
  C1 as stated fails on two Remove events. The partition 179:1 is registered but no
  media is tracked at its truncated path: the handler returns 0 without calling
  \<^verbatim>\<open>volmgr_notify_eject\<close>. The device 2:0 is not registered and the event's
  \<^verbatim>\<open>DEVTYPE\<close> is \<open>floppy\<close>: the handler returns \<open>-EINVAL\<close>, not success.
\<close>

theorem block_remove_counterexample:
  "action part_remove_event = action_remove
   \<and> blkdev_lookup_by_devno registry_collab orphan_registry 179 1 = Some (179, 1)
   \<and> handle_block_event registry_collab orphan_registry part_remove_event =
       (Ret 0, orphan_registry,
        [Call_truncate_sysfs_path (Some ''/block/mmcblk0/mmcblk0p1'') 3,
         Call_media_lookup_by_path (Some ''/block/mmcblk0/mmcblk0p1'')])
   \<and> action floppy_remove_event = action_remove
   \<and> blkdev_lookup_by_devno registry_collab empty_registry 2 0 = None
   \<and> handle_block_event registry_collab empty_registry floppy_remove_event =
       (Ret (- 22), empty_registry, [])"
  by code_simp


subsection \<open>Not found: the mmc handler against the block handler\<close>

text \<open>
  C7, as amended. An mmc Remove event whose path has no registered media returns the
  error \<open>-1\<close> after the lookup, with the state unchanged. A block Remove event whose
  \<^verbatim>\<open>DEVTYPE\<close> is \<open>disk\<close> or \<open>partition\<close> and that carries \<^verbatim>\<open>MAJOR\<close> and
  \<^verbatim>\<open>MINOR\<close> of an unregistered device returns 0, with the state unchanged; when a
  media is tracked at its truncated path, the handler reaches the device lookup, which
  is its last call, and returns 0 from there.
\<close>

theorem not_found_asymmetry:
  "(action event = action_remove
      \<and> media_lookup_by_path C w (path event) False = None \<longrightarrow>
      handle_mmc_event C w event = (Ret (- 1), w, [Call_media_lookup_by_path (path event)]))
   \<and> (action event = action_remove
      \<and> get_uevent_param event ''DEVTYPE'' = Ptr ty \<and> (ty = ''disk'' \<or> ty = ''partition'')
      \<and> get_uevent_param event ''MAJOR'' = Ptr majs
      \<and> get_uevent_param event ''MINOR'' = Ptr mins
      \<and> blkdev_lookup_by_devno C w (atoi majs) (atoi mins) = None \<longrightarrow>
      fst (handle_block_event C w event) = Ret 0
      \<and> fst (snd (handle_block_event C w event)) = w)
   \<and> (action event = action_remove
      \<and> get_uevent_param event ''DEVTYPE'' = Ptr ty \<and> (ty = ''disk'' \<or> ty = ''partition'')
      \<and> n = (if ty = ''disk'' then 2 else 3)
      \<and> media_lookup_by_path C w (Some (truncate_sysfs_path C (path event) n)) False
          = Some media
      \<and> get_uevent_param event ''MAJOR'' = Ptr majs
      \<and> get_uevent_param event ''MINOR'' = Ptr mins
      \<and> blkdev_lookup_by_devno C w (atoi majs) (atoi mins) = None \<longrightarrow>
      handle_block_event C w event =
        (Ret 0, w,
         [Call_truncate_sysfs_path (path event) n,
          Call_media_lookup_by_path (Some (truncate_sysfs_path C (path event) n)),
          Call_blkdev_lookup_by_devno (atoi majs) (atoi mins)]))"
proof -
  have mmc: "action event = action_remove
      \<and> media_lookup_by_path C w (path event) False = None \<longrightarrow>
      handle_mmc_event C w event = (Ret (- 1), w, [Call_media_lookup_by_path (path event)])"
    by (simp add: handle_mmc_event_def)
  have blk: "fst (handle_block_event C w event) = Ret 0
      \<and> fst (snd (handle_block_event C w event)) = w"
    if "action event = action_remove" "get_uevent_param event ''DEVTYPE'' = Ptr ty"
       "ty = ''disk'' \<or> ty = ''partition''" "get_uevent_param event ''MAJOR'' = Ptr majs"
       "get_uevent_param event ''MINOR'' = Ptr mins"
       "blkdev_lookup_by_devno C w (atoi majs) (atoi mins) = None"
  proof (cases "media_lookup_by_path C w
      (Some (truncate_sysfs_path C (path event) (if ty = ''disk'' then 2 else 3))) False")
    case None
    then show ?thesis
      using that by (simp add: handle_block_event_depth block_event_media_untracked)
  next
    case (Some media)
    then show ?thesis
      using that
      by (simp add: handle_block_event_depth block_event_media_remove block_event_remove_def)
  qed
  have c2: "action event = action_remove
      \<and> get_uevent_param event ''DEVTYPE'' = Ptr ty \<and> (ty = ''disk'' \<or> ty = ''partition'')
      \<and> get_uevent_param event ''MAJOR'' = Ptr majs
      \<and> get_uevent_param event ''MINOR'' = Ptr mins
      \<and> blkdev_lookup_by_devno C w (atoi majs) (atoi mins) = None \<longrightarrow>
      fst (handle_block_event C w event) = Ret 0
      \<and> fst (snd (handle_block_event C w event)) = w"
    by (intro impI, elim conjE, rule blk; assumption)
  have c3: "action event = action_remove
      \<and> get_uevent_param event ''DEVTYPE'' = Ptr ty \<and> (ty = ''disk'' \<or> ty = ''partition'')
      \<and> n = (if ty = ''disk'' then 2 else 3)
      \<and> media_lookup_by_path C w (Some (truncate_sysfs_path C (path event) n)) False
          = Some media
      \<and> get_uevent_param event ''MAJOR'' = Ptr majs
      \<and> get_uevent_param event ''MINOR'' = Ptr mins
      \<and> blkdev_lookup_by_devno C w (atoi majs) (atoi mins) = None \<longrightarrow>
      handle_block_event C w event =
        (Ret 0, w,
         [Call_truncate_sysfs_path (path event) n,
          Call_media_lookup_by_path (Some (truncate_sysfs_path C (path event) n)),
          Call_blkdev_lookup_by_devno (atoi majs) (atoi mins)])"
  proof (intro impI, elim conjE)
    assume a: "action event = action_remove"
      and ty: "get_uevent_param event ''DEVTYPE'' = Ptr ty" "ty = ''disk'' \<or> ty = ''partition''"
      and n: "n = (if ty = ''disk'' then 2 else 3)"
      and me: "media_lookup_by_path C w (Some (truncate_sysfs_path C (path event) n)) False
          = Some media"
      and mj: "get_uevent_param event ''MAJOR'' = Ptr majs"
      and mn: "get_uevent_param event ''MINOR'' = Ptr mins"
      and lk: "blkdev_lookup_by_devno C w (atoi majs) (atoi mins) = None"
    have hb: "handle_block_event C w event = block_event_media C w event n"
      using ty n by (simp add: handle_block_event_depth)
    show "handle_block_event C w event =
        (Ret 0, w,
         [Call_truncate_sysfs_path (path event) n,
          Call_media_lookup_by_path (Some (truncate_sysfs_path C (path event) n)),
          Call_blkdev_lookup_by_devno (atoi majs) (atoi mins)])"
      unfolding hb
      by (simp add: block_event_media_remove [OF me mj mn a] block_event_remove_def lk)
  qed
  from mmc c2 c3 show ?thesis by - (intro conjI; assumption)
qed

theorem not_found_asymmetry_witness:
  "action mmc_remove_event = action_remove
   \<and> media_lookup_by_path registry_collab empty_registry (path mmc_remove_event) False = None
   \<and> handle_mmc_event registry_collab empty_registry mmc_remove_event =
       (Ret (- 1), empty_registry, [Call_media_lookup_by_path (path mmc_remove_event)])
   \<and> action part_remove_event = action_remove
   \<and> media_lookup_by_path registry_collab media_only_registry
        (Some (truncate_sysfs_path registry_collab (path part_remove_event) 3)) False
       = Some ''/block/mmcblk0/mmcblk0p1''
   \<and> blkdev_lookup_by_devno registry_collab media_only_registry (atoi ''179'') (atoi ''1'')
       = None
   \<and> handle_block_event registry_collab media_only_registry part_remove_event =
       (Ret 0, media_only_registry,
        [Call_truncate_sysfs_path (path part_remove_event) 3,
         Call_media_lookup_by_path
           (Some (truncate_sysfs_path registry_collab (path part_remove_event) 3)),
         Call_blkdev_lookup_by_devno (atoi ''179'') (atoi ''1'')])
   \<and> fst (handle_block_event registry_collab media_only_registry part_remove_event) = Ret 0"
proof -
  note t1 = not_found_asymmetry
      [where event = mmc_remove_event and C = registry_collab and w = empty_registry]
  note t2 = not_found_asymmetry
      [where event = part_remove_event and C = registry_collab and w = media_only_registry
         and ty = "''partition''" and n = 3 and media = "''/block/mmcblk0/mmcblk0p1''"
         and majs = "''179''" and mins = "''1''"]
  have a: "action mmc_remove_event = action_remove" by code_simp
  have m: "media_lookup_by_path registry_collab empty_registry (path mmc_remove_event) False
           = None" by code_simp
  have am: "action mmc_remove_event = action_remove
      \<and> media_lookup_by_path registry_collab empty_registry (path mmc_remove_event) False
          = None"
    using a m by simp
  have r1: "handle_mmc_event registry_collab empty_registry mmc_remove_event =
       (Ret (- 1), empty_registry, [Call_media_lookup_by_path (path mmc_remove_event)])"
    by (rule mp [OF t1 [THEN conjunct1] am])
  have b: "action part_remove_event = action_remove" by code_simp
  have bm: "media_lookup_by_path registry_collab media_only_registry
        (Some (truncate_sysfs_path registry_collab (path part_remove_event) 3)) False
       = Some ''/block/mmcblk0/mmcblk0p1''" by code_simp
  have l: "blkdev_lookup_by_devno registry_collab media_only_registry (atoi ''179'')
        (atoi ''1'') = None" by code_simp
  have h2: "action part_remove_event = action_remove
      \<and> get_uevent_param part_remove_event ''DEVTYPE'' = Ptr ''partition''
      \<and> (''partition'' = ''disk'' \<or> ''partition'' = ''partition'')
      \<and> get_uevent_param part_remove_event ''MAJOR'' = Ptr ''179''
      \<and> get_uevent_param part_remove_event ''MINOR'' = Ptr ''1''
      \<and> blkdev_lookup_by_devno registry_collab media_only_registry (atoi ''179'')
           (atoi ''1'') = None"
    using part_remove_params l by simp
  have h3: "action part_remove_event = action_remove
      \<and> get_uevent_param part_remove_event ''DEVTYPE'' = Ptr ''partition''
      \<and> (''partition'' = ''disk'' \<or> ''partition'' = ''partition'')
      \<and> (3 :: int) = (if ''partition'' = ''disk'' then 2 else 3)
      \<and> media_lookup_by_path registry_collab media_only_registry
           (Some (truncate_sysfs_path registry_collab (path part_remove_event) 3)) False
          = Some ''/block/mmcblk0/mmcblk0p1''
      \<and> get_uevent_param part_remove_event ''MAJOR'' = Ptr ''179''
      \<and> get_uevent_param part_remove_event ''MINOR'' = Ptr ''1''
      \<and> blkdev_lookup_by_devno registry_collab media_only_registry (atoi ''179'')
           (atoi ''1'') = None"
    using part_remove_params l bm by simp
  have r3: "handle_block_event registry_collab media_only_registry part_remove_event =
       (Ret 0, media_only_registry,
        [Call_truncate_sysfs_path (path part_remove_event) 3,
         Call_media_lookup_by_path
           (Some (truncate_sysfs_path registry_collab (path part_remove_event) 3)),
         Call_blkdev_lookup_by_devno (atoi ''179'') (atoi ''1'')])"
    by (rule mp [OF t2 [THEN conjunct2, THEN conjunct2] h3])
  have r2: "fst (handle_block_event registry_collab media_only_registry part_remove_event)
      = Ret 0"
    by (rule conjunct1 [OF mp [OF t2 [THEN conjunct2, THEN conjunct1] h2]])
  from a m r1 b bm l r3 r2 show ?thesis by - (intro conjI; assumption)
qed

text \<open>
  C7 as stated fails on a block Remove event for the unregistered device 2:0 whose
  \<^verbatim>\<open>DEVTYPE\<close> is \<open>floppy\<close>: the result is \<open>-EINVAL\<close>, not success.
\<close>

theorem block_remove_bad_devtype_counterexample:
  "action floppy_remove_event = action_remove
   \<and> get_uevent_param floppy_remove_event ''MAJOR'' = Ptr ''2''
   \<and> get_uevent_param floppy_remove_event ''MINOR'' = Ptr ''0''
   \<and> blkdev_lookup_by_devno registry_collab card_registry (atoi ''2'') (atoi ''0'') = None
   \<and> fst (handle_block_event registry_collab card_registry floppy_remove_event) = Ret (- 22)
   \<and> fst (handle_block_event registry_collab card_registry floppy_remove_event) \<noteq> Ret 0"
  by code_simp

subsection \<open>The block handler: handing a disk to the volume manager\<close>

lemma block_event_attach_consider:
  "block_event_attach C w media blkdev pending = (r, w', t) \<Longrightarrow>
   length (filter is_consider_disk t) \<le> 1"
  by (auto simp add: block_event_attach_def is_consider_disk_def Let_def
      split: prod.splits if_splits)

lemma block_event_add_consider:
  "block_event_add C w event media maj mn = (r, w', t) \<Longrightarrow>
   length (filter is_consider_disk t) \<le> 1"
  by (auto simp add: block_event_add_def is_consider_disk_def Let_def
      split: prod.splits option.splits dest: block_event_attach_consider)

lemma block_event_remove_consider:
  "block_event_remove C w maj mn = (r, w', t) \<Longrightarrow> filter is_consider_disk t = []"
  by (auto simp add: block_event_remove_def is_consider_disk_def
      split: prod.splits option.splits)

lemma block_event_media_consider:
  "block_event_media C w event n = (r, w', t) \<Longrightarrow>
   length (filter is_consider_disk t) \<le> (if action event = action_add then 1 else 0)"
  by (auto simp add: block_event_media_def is_consider_disk_def Let_def
      split: prod.splits option.splits outcome.splits if_splits
      dest: block_event_add_consider block_event_remove_consider)

lemma handle_block_event_consider:
  "handle_block_event C w event = (r, w', t) \<Longrightarrow>
   length (filter is_consider_disk t) \<le> (if action event = action_add then 1 else 0)"
  by (auto simp add: handle_block_event_def
      split: outcome.splits if_splits dest: block_event_media_consider)

lemma run_block_events_consider:
  "length (filter is_consider_disk (snd (run_block_events C w evs)))
     \<le> length (filter (\<lambda>e. action e = action_add) evs)"
proof (induction evs arbitrary: w)
  case Nil
  show ?case by simp
next
  case (Cons e es)
  obtain r w1 t1 where h: "handle_block_event C w e = (r, w1, t1)"
    by (cases "handle_block_event C w e") auto
  have one: "length (filter is_consider_disk t1) \<le> (if action e = action_add then 1 else 0)"
    using handle_block_event_consider [OF h] .
  show ?case
  proof (cases r)
    case (Fault f)
    then show ?thesis using h one by (simp split: if_splits)
  next
    case (Ret rc)
    obtain w2 t2 where r2: "run_block_events C w1 es = (w2, t2)"
      by (cases "run_block_events C w1 es") auto
    have "length (filter is_consider_disk t2) \<le> length (filter (\<lambda>e. action e = action_add) es)"
      using Cons.IH [of w1] r2 by simp
    then show ?thesis using h Ret r2 one by (simp split: if_splits)
  qed
qed

lemma block_event_attach_consider_zero:
  "block_event_attach C w media blkdev pending = (r, w', t) \<Longrightarrow>
   Call_volmgr_consider_disk d \<in> set t \<Longrightarrow>
   pending \<and> \<not> fst (media_add_blkdev C w media blkdev) < 0
   \<and> d = blkdev_disk C (snd (media_add_blkdev C w media blkdev)) blkdev
   \<and> blkdev_get_num_pending_partitions C (snd (media_add_blkdev C w media blkdev)) d = 0"
  by (auto simp add: block_event_attach_def Let_def split: prod.splits if_splits)

lemma block_event_add_consider_zero:
  "block_event_add C w event media maj mn = (r, w', t) \<Longrightarrow>
   Call_volmgr_consider_disk d \<in> set t \<Longrightarrow>
   \<exists>blkdev. blkdev_lookup_by_devno C w maj mn = Some blkdev
     \<and> \<not> fst (media_add_blkdev C (blkdev_devpath_set C w blkdev (path event)) media blkdev) < 0
     \<and> d = blkdev_disk C
             (snd (media_add_blkdev C (blkdev_devpath_set C w blkdev (path event)) media blkdev))
             blkdev
     \<and> blkdev_get_num_pending_partitions C
         (snd (media_add_blkdev C (blkdev_devpath_set C w blkdev (path event)) media blkdev)) d
       = 0"
  by (auto simp add: block_event_add_def Let_def split: prod.splits option.splits
      dest: block_event_attach_consider_zero)

lemma block_event_media_consider_zero:
  "block_event_media C w event n = (r, w', t) \<Longrightarrow>
   Call_volmgr_consider_disk d \<in> set t \<Longrightarrow>
   action event = action_add \<and>
    (\<exists>media majs mins blkdev.
       media_lookup_by_path C w (Some (truncate_sysfs_path C (path event) n)) False = Some media
     \<and> get_uevent_param event ''MAJOR'' = Ptr majs
     \<and> get_uevent_param event ''MINOR'' = Ptr mins
     \<and> blkdev_lookup_by_devno C w (atoi majs) (atoi mins) = Some blkdev
     \<and> \<not> fst (media_add_blkdev C (blkdev_devpath_set C w blkdev (path event)) media blkdev) < 0
     \<and> d = blkdev_disk C
             (snd (media_add_blkdev C (blkdev_devpath_set C w blkdev (path event)) media blkdev))
             blkdev
     \<and> blkdev_get_num_pending_partitions C
         (snd (media_add_blkdev C (blkdev_devpath_set C w blkdev (path event)) media blkdev)) d
       = 0)"
  by (auto simp add: block_event_media_def block_event_remove_def Let_def
      split: prod.splits option.splits outcome.splits if_splits
      elim!: deref.elims dest: block_event_add_consider_zero)

lemma run_block_events_consider_origin:
  "Call_volmgr_consider_disk d \<in> set (snd (run_block_events C w evs)) \<Longrightarrow>
   \<exists>pre e post. evs = pre @ e # post
     \<and> Call_volmgr_consider_disk d
         \<in> set (snd (snd (handle_block_event C (fst (run_block_events C w pre)) e)))"
proof (induction evs arbitrary: w)
  case Nil
  then show ?case by simp
next
  case (Cons e0 es)
  obtain r w1 t1 where h: "handle_block_event C w e0 = (r, w1, t1)"
    by (cases "handle_block_event C w e0") auto
  show ?case
  proof (cases "Call_volmgr_consider_disk d \<in> set t1")
    case True
    then have "e0 # es = [] @ e0 # es
      \<and> Call_volmgr_consider_disk d
          \<in> set (snd (snd (handle_block_event C (fst (run_block_events C w [])) e0)))"
      using h by simp
    then show ?thesis by blast
  next
    case False
    with Cons.prems h obtain rc where r: "r = Ret rc"
      by (cases r) auto
    from Cons.prems h r False
    have "Call_volmgr_consider_disk d \<in> set (snd (run_block_events C w1 es))"
      by (simp split: prod.splits)
    from Cons.IH [OF this] obtain pre e post where
      es: "es = pre @ e # post"
      and m: "Call_volmgr_consider_disk d
         \<in> set (snd (snd (handle_block_event C (fst (run_block_events C w1 pre)) e)))"
      by blast
    have "fst (run_block_events C w (e0 # pre)) = fst (run_block_events C w1 pre)"
      using h r by (simp split: prod.split)
    with es m have "e0 # es = (e0 # pre) @ e # post
      \<and> Call_volmgr_consider_disk d
          \<in> set (snd (snd (handle_block_event C (fst (run_block_events C w (e0 # pre))) e)))"
      by simp
    then show ?thesis by blast
  qed
qed

lemma block_event_attach_calls:
  "media_add_blkdev C w media blkdev = (rc, w2) \<Longrightarrow> \<not> rc < 0 \<Longrightarrow>
   blkdev_get_num_pending_partitions C w2 (blkdev_disk C w2 blkdev) = 0 \<Longrightarrow>
   block_event_attach C w media blkdev True =
     (Ret (if fst (volmgr_consider_disk C w2 (blkdev_disk C w2 blkdev)) < 0
           then fst (volmgr_consider_disk C w2 (blkdev_disk C w2 blkdev)) else 0),
      snd (volmgr_consider_disk C w2 (blkdev_disk C w2 blkdev)),
      [Call_media_add_blkdev media blkdev,
       Call_blkdev_get_num_pending_partitions (blkdev_disk C w2 blkdev) 0,
       Call_volmgr_consider_disk (blkdev_disk C w2 blkdev)])"
  by (simp add: block_event_attach_def Let_def split: prod.split)

lemma block_event_add_calls:
  "blkdev_lookup_by_devno C w maj mn = Some blkdev \<Longrightarrow>
   media_add_blkdev C (blkdev_devpath_set C w blkdev (path event)) media blkdev = (rc, w2) \<Longrightarrow>
   \<not> rc < 0 \<Longrightarrow>
   blkdev_get_num_pending_partitions C w2 (blkdev_disk C w2 blkdev) = 0 \<Longrightarrow>
   block_event_add C w event media maj mn =
     (Ret (if fst (volmgr_consider_disk C w2 (blkdev_disk C w2 blkdev)) < 0
           then fst (volmgr_consider_disk C w2 (blkdev_disk C w2 blkdev)) else 0),
      snd (volmgr_consider_disk C w2 (blkdev_disk C w2 blkdev)),
      [Call_blkdev_lookup_by_devno maj 0, Call_blkdev_lookup_by_devno maj mn,
       Call_blkdev_devpath_set blkdev (path event),
       Call_media_add_blkdev media blkdev,
       Call_blkdev_get_num_pending_partitions (blkdev_disk C w2 blkdev) 0,
       Call_volmgr_consider_disk (blkdev_disk C w2 blkdev)])"
  by (simp add: block_event_add_def Let_def block_event_attach_calls)

lemma block_event_media_add:
  "media_lookup_by_path C w (Some (truncate_sysfs_path C (path event) n)) False = Some media \<Longrightarrow>
   get_uevent_param event ''MAJOR'' = Ptr majs \<Longrightarrow>
   get_uevent_param event ''MINOR'' = Ptr mins \<Longrightarrow>
   action event = action_add \<Longrightarrow>
   block_event_media C w event n =
     (case block_event_add C w event media (atoi majs) (atoi mins) of
        (r, w1, t1) \<Rightarrow>
          (r, w1, [Call_truncate_sysfs_path (path event) n,
                   Call_media_lookup_by_path (Some (truncate_sysfs_path C (path event) n))] @ t1))"
  by (simp add: block_event_media_def Let_def)

text \<open>
  C2, as amended. While handling an Add event the block handler calls
  \<^verbatim>\<open>volmgr_consider_disk\<close> exactly when all of this holds: the \<^verbatim>\<open>DEVTYPE\<close> is
  \<open>disk\<close> or \<open>partition\<close>, a media is tracked at the truncated path, the event's
  (major, minor) was already registered before the event (a placeholder), attaching the
  device to the media did not fail, and the pending-partition count of the device's
  disk, read after the attachment, is zero. Then the call is made once, as the last
  call of the handler, for that disk; it is never made while the count is positive, nor
  for a device the handler has just created, nor for an event that is not an Add. In a
  sequence of events every such call is made by one event of the sequence, handled in
  the state the events before it left, so there are at most as many calls as Add events.
\<close>

theorem consider_disk_only_at_zero:
  "length (filter is_consider_disk (snd (run_block_events C w evs)))
     \<le> length (filter (\<lambda>e. action e = action_add) evs)
   \<and> (Call_volmgr_consider_disk d \<in> set (snd (run_block_events C w evs)) \<longrightarrow>
        (\<exists>pre e post. evs = pre @ e # post
           \<and> Call_volmgr_consider_disk d
               \<in> set (snd (snd (handle_block_event C (fst (run_block_events C w pre)) e)))))
   \<and> length (filter is_consider_disk (snd (snd (handle_block_event C w event))))
     \<le> (if action event = action_add then 1 else 0)
   \<and> (Call_volmgr_consider_disk d \<in> set (snd (snd (handle_block_event C w event))) \<longrightarrow>
        action event = action_add
        \<and> (\<exists>ty media majs mins blkdev.
             get_uevent_param event ''DEVTYPE'' = Ptr ty \<and> (ty = ''disk'' \<or> ty = ''partition'')
           \<and> media_lookup_by_path C w
               (Some (truncate_sysfs_path C (path event) (if ty = ''disk'' then 2 else 3))) False
               = Some media
           \<and> get_uevent_param event ''MAJOR'' = Ptr majs
           \<and> get_uevent_param event ''MINOR'' = Ptr mins
           \<and> blkdev_lookup_by_devno C w (atoi majs) (atoi mins) = Some blkdev
           \<and> \<not> fst (media_add_blkdev C (blkdev_devpath_set C w blkdev (path event))
                      media blkdev) < 0
           \<and> d = blkdev_disk C
                   (snd (media_add_blkdev C (blkdev_devpath_set C w blkdev (path event))
                           media blkdev))
                   blkdev
           \<and> blkdev_get_num_pending_partitions C
               (snd (media_add_blkdev C (blkdev_devpath_set C w blkdev (path event))
                       media blkdev)) d
             = 0))
   \<and> (action event = action_add
        \<and> get_uevent_param event ''DEVTYPE'' = Ptr ty \<and> (ty = ''disk'' \<or> ty = ''partition'')
        \<and> n = (if ty = ''disk'' then 2 else 3)
        \<and> media_lookup_by_path C w (Some (truncate_sysfs_path C (path event) n)) False
            = Some media
        \<and> get_uevent_param event ''MAJOR'' = Ptr majs
        \<and> get_uevent_param event ''MINOR'' = Ptr mins
        \<and> blkdev_lookup_by_devno C w (atoi majs) (atoi mins) = Some blkdev
        \<and> media_add_blkdev C (blkdev_devpath_set C w blkdev (path event)) media blkdev
            = (rc, w2)
        \<and> \<not> rc < 0
        \<and> disk = blkdev_disk C w2 blkdev
        \<and> blkdev_get_num_pending_partitions C w2 disk = 0 \<longrightarrow>
        handle_block_event C w event =
          (Ret (if fst (volmgr_consider_disk C w2 disk) < 0
                then fst (volmgr_consider_disk C w2 disk) else 0),
           snd (volmgr_consider_disk C w2 disk),
           [Call_truncate_sysfs_path (path event) n,
            Call_media_lookup_by_path (Some (truncate_sysfs_path C (path event) n)),
            Call_blkdev_lookup_by_devno (atoi majs) 0,
            Call_blkdev_lookup_by_devno (atoi majs) (atoi mins),
            Call_blkdev_devpath_set blkdev (path event),
            Call_media_add_blkdev media blkdev,
            Call_blkdev_get_num_pending_partitions disk 0,
            Call_volmgr_consider_disk disk]))"
proof -
  obtain r w' t where h: "handle_block_event C w event = (r, w', t)"
    by (cases "handle_block_event C w event") auto
  have c1: "length (filter is_consider_disk (snd (run_block_events C w evs)))
     \<le> length (filter (\<lambda>e. action e = action_add) evs)"
    by (rule run_block_events_consider)
  have c2: "Call_volmgr_consider_disk d \<in> set (snd (run_block_events C w evs)) \<longrightarrow>
        (\<exists>pre e post. evs = pre @ e # post
           \<and> Call_volmgr_consider_disk d
               \<in> set (snd (snd (handle_block_event C (fst (run_block_events C w pre)) e))))"
    using run_block_events_consider_origin [of d C w evs] by blast
  have c3: "length (filter is_consider_disk (snd (snd (handle_block_event C w event))))
     \<le> (if action event = action_add then 1 else 0)"
    using handle_block_event_consider [OF h] h by simp
  have c4: "Call_volmgr_consider_disk d \<in> set (snd (snd (handle_block_event C w event))) \<longrightarrow>
        action event = action_add
        \<and> (\<exists>ty media majs mins blkdev.
             get_uevent_param event ''DEVTYPE'' = Ptr ty \<and> (ty = ''disk'' \<or> ty = ''partition'')
           \<and> media_lookup_by_path C w
               (Some (truncate_sysfs_path C (path event) (if ty = ''disk'' then 2 else 3))) False
               = Some media
           \<and> get_uevent_param event ''MAJOR'' = Ptr majs
           \<and> get_uevent_param event ''MINOR'' = Ptr mins
           \<and> blkdev_lookup_by_devno C w (atoi majs) (atoi mins) = Some blkdev
           \<and> \<not> fst (media_add_blkdev C (blkdev_devpath_set C w blkdev (path event))
                      media blkdev) < 0
           \<and> d = blkdev_disk C
                   (snd (media_add_blkdev C (blkdev_devpath_set C w blkdev (path event))
                           media blkdev))
                   blkdev
           \<and> blkdev_get_num_pending_partitions C
               (snd (media_add_blkdev C (blkdev_devpath_set C w blkdev (path event))
                       media blkdev)) d
             = 0)"
  proof
    assume m: "Call_volmgr_consider_disk d \<in> set (snd (snd (handle_block_event C w event)))"
    from m h have mt: "Call_volmgr_consider_disk d \<in> set t" by simp
    obtain ty0 where ty0: "get_uevent_param event ''DEVTYPE'' = Ptr ty0"
      "ty0 = ''disk'' \<or> ty0 = ''partition''"
      using h mt by (auto simp add: handle_block_event_def
          split: outcome.splits if_splits elim!: deref.elims)
    have "block_event_media C w event (if ty0 = ''disk'' then 2 else 3) = (r, w', t)"
      using h ty0 by (simp add: handle_block_event_depth)
    from block_event_media_consider_zero [OF this mt] ty0
    show "action event = action_add
        \<and> (\<exists>ty media majs mins blkdev.
             get_uevent_param event ''DEVTYPE'' = Ptr ty \<and> (ty = ''disk'' \<or> ty = ''partition'')
           \<and> media_lookup_by_path C w
               (Some (truncate_sysfs_path C (path event) (if ty = ''disk'' then 2 else 3))) False
               = Some media
           \<and> get_uevent_param event ''MAJOR'' = Ptr majs
           \<and> get_uevent_param event ''MINOR'' = Ptr mins
           \<and> blkdev_lookup_by_devno C w (atoi majs) (atoi mins) = Some blkdev
           \<and> \<not> fst (media_add_blkdev C (blkdev_devpath_set C w blkdev (path event))
                      media blkdev) < 0
           \<and> d = blkdev_disk C
                   (snd (media_add_blkdev C (blkdev_devpath_set C w blkdev (path event))
                           media blkdev))
                   blkdev
           \<and> blkdev_get_num_pending_partitions C
               (snd (media_add_blkdev C (blkdev_devpath_set C w blkdev (path event))
                       media blkdev)) d
             = 0)"
      by blast
  qed
  have c5: "action event = action_add
        \<and> get_uevent_param event ''DEVTYPE'' = Ptr ty \<and> (ty = ''disk'' \<or> ty = ''partition'')
        \<and> n = (if ty = ''disk'' then 2 else 3)
        \<and> media_lookup_by_path C w (Some (truncate_sysfs_path C (path event) n)) False
            = Some media
        \<and> get_uevent_param event ''MAJOR'' = Ptr majs
        \<and> get_uevent_param event ''MINOR'' = Ptr mins
        \<and> blkdev_lookup_by_devno C w (atoi majs) (atoi mins) = Some blkdev
        \<and> media_add_blkdev C (blkdev_devpath_set C w blkdev (path event)) media blkdev
            = (rc, w2)
        \<and> \<not> rc < 0
        \<and> disk = blkdev_disk C w2 blkdev
        \<and> blkdev_get_num_pending_partitions C w2 disk = 0 \<longrightarrow>
        handle_block_event C w event =
          (Ret (if fst (volmgr_consider_disk C w2 disk) < 0
                then fst (volmgr_consider_disk C w2 disk) else 0),
           snd (volmgr_consider_disk C w2 disk),
           [Call_truncate_sysfs_path (path event) n,
            Call_media_lookup_by_path (Some (truncate_sysfs_path C (path event) n)),
            Call_blkdev_lookup_by_devno (atoi majs) 0,
            Call_blkdev_lookup_by_devno (atoi majs) (atoi mins),
            Call_blkdev_devpath_set blkdev (path event),
            Call_media_add_blkdev media blkdev,
            Call_blkdev_get_num_pending_partitions disk 0,
            Call_volmgr_consider_disk disk])"
  proof (intro impI, elim conjE)
    assume a: "action event = action_add"
      and ty: "get_uevent_param event ''DEVTYPE'' = Ptr ty" "ty = ''disk'' \<or> ty = ''partition''"
      and n: "n = (if ty = ''disk'' then 2 else 3)"
      and me: "media_lookup_by_path C w (Some (truncate_sysfs_path C (path event) n)) False
            = Some media"
      and mj: "get_uevent_param event ''MAJOR'' = Ptr majs"
      and mn: "get_uevent_param event ''MINOR'' = Ptr mins"
      and lk: "blkdev_lookup_by_devno C w (atoi majs) (atoi mins) = Some blkdev"
      and ad: "media_add_blkdev C (blkdev_devpath_set C w blkdev (path event)) media blkdev
            = (rc, w2)"
      and rc: "\<not> rc < 0"
      and dk: "disk = blkdev_disk C w2 blkdev"
      and z: "blkdev_get_num_pending_partitions C w2 disk = 0"
    have hb: "handle_block_event C w event = block_event_media C w event n"
      using ty n by (simp add: handle_block_event_depth)
    from z dk have z': "blkdev_get_num_pending_partitions C w2 (blkdev_disk C w2 blkdev) = 0"
      by simp
    show "handle_block_event C w event =
          (Ret (if fst (volmgr_consider_disk C w2 disk) < 0
                then fst (volmgr_consider_disk C w2 disk) else 0),
           snd (volmgr_consider_disk C w2 disk),
           [Call_truncate_sysfs_path (path event) n,
            Call_media_lookup_by_path (Some (truncate_sysfs_path C (path event) n)),
            Call_blkdev_lookup_by_devno (atoi majs) 0,
            Call_blkdev_lookup_by_devno (atoi majs) (atoi mins),
            Call_blkdev_devpath_set blkdev (path event),
            Call_media_add_blkdev media blkdev,
            Call_blkdev_get_num_pending_partitions disk 0,
            Call_volmgr_consider_disk disk])"
      unfolding hb
      by (simp add: block_event_media_add [OF me mj mn a]
          block_event_add_calls [OF lk ad rc z'] dk)
  qed
  from c1 c2 c3 c4 c5 show ?thesis by - (intro conjI; assumption)
qed

theorem consider_disk_only_at_zero_witness:
  "Call_volmgr_consider_disk (179, 0)
     \<in> set (snd (run_block_events registry_collab tracked_registry
                   [disk_add_event, part_add_event, part2_add_event]))
   \<and> (\<exists>pre e post. [disk_add_event, part_add_event, part2_add_event] = pre @ e # post
         \<and> Call_volmgr_consider_disk (179, 0)
             \<in> set (snd (snd (handle_block_event registry_collab
                                 (fst (run_block_events registry_collab tracked_registry pre))
                                 e))))
   \<and> action part2_add_event = action_add
   \<and> blkdev_lookup_by_devno registry_collab
        (fst (run_block_events registry_collab tracked_registry
                [disk_add_event, part_add_event])) 179 2 = Some (179, 2)
   \<and> blkdev_get_num_pending_partitions registry_collab
        (fst (run_block_events registry_collab tracked_registry
                [disk_add_event, part_add_event, part2_add_event])) (179, 0) = 0
   \<and> filter is_consider_disk
        (snd (snd (handle_block_event registry_collab
                     (fst (run_block_events registry_collab tracked_registry
                             [disk_add_event, part_add_event]))
                     part2_add_event)))
       = [Call_volmgr_consider_disk (179, 0)]
   \<and> filter is_consider_disk
        (snd (run_block_events registry_collab tracked_registry
                [disk_add_event, part_add_event, part2_add_event]))
       = [Call_volmgr_consider_disk (179, 0)]"
proof -
  let ?w = "fst (run_block_events registry_collab tracked_registry
                   [disk_add_event, part_add_event])"
  let ?w2 = "fst (run_block_events registry_collab tracked_registry
                    [disk_add_event, part_add_event, part2_add_event])"
  note t = consider_disk_only_at_zero
      [where C = registry_collab and w = tracked_registry
         and evs = "[disk_add_event, part_add_event, part2_add_event]" and d = "(179, 0)"]
  note t2 = consider_disk_only_at_zero
      [where C = registry_collab and w = ?w and event = part2_add_event
         and ty = "''partition''" and n = 3 and media = "''/block/mmcblk0/mmcblk0p2''"
         and majs = "''179''" and mins = "''2''" and blkdev = "(179, 2)" and rc = 0
         and ?w2.0 = ?w2 and disk = "(179, 0)"]
  have m: "Call_volmgr_consider_disk (179, 0)
     \<in> set (snd (run_block_events registry_collab tracked_registry
                   [disk_add_event, part_add_event, part2_add_event]))"
    by code_simp
  have o: "\<exists>pre e post. [disk_add_event, part_add_event, part2_add_event] = pre @ e # post
         \<and> Call_volmgr_consider_disk (179, 0)
             \<in> set (snd (snd (handle_block_event registry_collab
                                 (fst (run_block_events registry_collab tracked_registry pre))
                                 e)))"
    by (rule mp [OF t [THEN conjunct2, THEN conjunct1] m])
  have a: "action part2_add_event = action_add" by code_simp
  have lk: "blkdev_lookup_by_devno registry_collab ?w 179 2 = Some (179, 2)" by code_simp
  have z: "blkdev_get_num_pending_partitions registry_collab ?w2 (179, 0) = 0" by code_simp
  have hyps: "action part2_add_event = action_add
        \<and> get_uevent_param part2_add_event ''DEVTYPE'' = Ptr ''partition''
        \<and> (''partition'' = ''disk'' \<or> ''partition'' = ''partition'')
        \<and> (3 :: int) = (if ''partition'' = ''disk'' then 2 else 3)
        \<and> media_lookup_by_path registry_collab ?w
             (Some (truncate_sysfs_path registry_collab (path part2_add_event) 3)) False
            = Some ''/block/mmcblk0/mmcblk0p2''
        \<and> get_uevent_param part2_add_event ''MAJOR'' = Ptr ''179''
        \<and> get_uevent_param part2_add_event ''MINOR'' = Ptr ''2''
        \<and> blkdev_lookup_by_devno registry_collab ?w (atoi ''179'') (atoi ''2'') = Some (179, 2)
        \<and> media_add_blkdev registry_collab
             (blkdev_devpath_set registry_collab ?w (179, 2) (path part2_add_event))
             ''/block/mmcblk0/mmcblk0p2'' (179, 2)
            = (0, ?w2)
        \<and> \<not> (0 :: int) < 0
        \<and> (179, 0) = blkdev_disk registry_collab ?w2 (179, 2)
        \<and> blkdev_get_num_pending_partitions registry_collab ?w2 (179, 0) = 0"
    by code_simp
  have e: "handle_block_event registry_collab ?w part2_add_event =
          (Ret (if fst (volmgr_consider_disk registry_collab ?w2 (179, 0)) < 0
                then fst (volmgr_consider_disk registry_collab ?w2 (179, 0)) else 0),
           snd (volmgr_consider_disk registry_collab ?w2 (179, 0)),
           [Call_truncate_sysfs_path (path part2_add_event) 3,
            Call_media_lookup_by_path
              (Some (truncate_sysfs_path registry_collab (path part2_add_event) 3)),
            Call_blkdev_lookup_by_devno (atoi ''179'') 0,
            Call_blkdev_lookup_by_devno (atoi ''179'') (atoi ''2''),
            Call_blkdev_devpath_set (179, 2) (path part2_add_event),
            Call_media_add_blkdev ''/block/mmcblk0/mmcblk0p2'' (179, 2),
            Call_blkdev_get_num_pending_partitions (179, 0) 0,
            Call_volmgr_consider_disk (179, 0)])"
    by (rule mp [OF t2 [THEN conjunct2, THEN conjunct2, THEN conjunct2, THEN conjunct2] hyps])
  have f: "filter is_consider_disk
        (snd (snd (handle_block_event registry_collab ?w part2_add_event)))
       = [Call_volmgr_consider_disk (179, 0)]"
    unfolding e by (simp add: is_consider_disk_def)
  have g: "filter is_consider_disk
        (snd (run_block_events registry_collab tracked_registry
                [disk_add_event, part_add_event, part2_add_event]))
       = [Call_volmgr_consider_disk (179, 0)]"
    by code_simp
  from m o a lk z f g show ?thesis by - (intro conjI; assumption)
qed

text \<open>
  C2 as stated fails on the enumeration of the disk 179:0 and its partitions 179:1 and
  179:2 when the two partitions are announced before the disk, with a media tracked for
  each event and nothing registered beforehand. Each partition is created by its own Add,
  so none is a placeholder; when the disk is created, both partitions are registered
  already and no placeholder is made. All three devices end up attached, the pending
  count of the disk is zero, and \<^verbatim>\<open>volmgr_consider_disk\<close> has not been called.
\<close>

theorem consider_disk_counterexample:
  "filter is_consider_disk
     (snd (run_block_events registry_collab tracked_registry
             [part_add_event, part2_add_event, disk_add_event])) = []
   \<and> map fst (blkdevs (fst (run_block_events registry_collab tracked_registry
                              [part_add_event, part2_add_event, disk_add_event])))
      = [(179, 1), (179, 2), (179, 0)]
   \<and> medias (fst (run_block_events registry_collab tracked_registry
                     [part_add_event, part2_add_event, disk_add_event]))
      = [(''/block/mmcblk0'', [(179, 0)]), (''/block/mmcblk0/mmcblk0p1'', [(179, 1)]),
         (''/block/mmcblk0/mmcblk0p2'', [(179, 2)])]
   \<and> blkdev_get_num_pending_partitions registry_collab
       (fst (run_block_events registry_collab tracked_registry
               [part_add_event, part2_add_event, disk_add_event])) (179, 0) = 0"
  by code_simp

subsection \<open>Parameters that are missing\<close>







subsection \<open>The mass-storage flags\<close>

text \<open>
  C10. \<^verbatim>\<open>ums_hostconnected_set(false)\<close> clears \<^verbatim>\<open>ums_enabled\<close> as well as
  \<^verbatim>\<open>host_connected\<close>; \<^verbatim>\<open>ums_hostconnected_set(true)\<close> leaves \<^verbatim>\<open>ums_enabled\<close> as
  it was. Hence a switch event named \<open>usb_mass_storage\<close> whose state is anything but
  \<open>online\<close> returns 0 and leaves both flags false.
\<close>

theorem ums_disconnect_disables:
  "ums_enabled (ums_hostconnected_set False u) = False
   \<and> host_connected (ums_hostconnected_set False u) = False
   \<and> ums_enabled (ums_hostconnected_set True u) = ums_enabled u
   \<and> host_connected (ums_hostconnected_set True u) = True
   \<and> (get_uevent_param event ''SWITCH_NAME'' = Ptr ''usb_mass_storage''
      \<and> get_uevent_param event ''SWITCH_STATE'' = Ptr st \<and> st \<noteq> ''online'' \<longrightarrow>
      fst (handle_switch_event u event) = Ret 0
      \<and> snd (handle_switch_event u event) = ums_hostconnected_set False u
      \<and> host_connected (snd (handle_switch_event u event)) = False
      \<and> ums_enabled (snd (handle_switch_event u event)) = False)"
  by (simp add: handle_switch_event_def ums_hostconnected_set_def ums_enabled_set_def)

theorem ums_disconnect_disables_witness:
  "host_connected ums_sharing = True \<and> ums_enabled ums_sharing = True
   \<and> get_uevent_param switch_offline_event ''SWITCH_NAME'' = Ptr ''usb_mass_storage''
   \<and> get_uevent_param switch_offline_event ''SWITCH_STATE'' = Ptr ''offline''
   \<and> fst (handle_switch_event ums_sharing switch_offline_event) = Ret 0
   \<and> host_connected (snd (handle_switch_event ums_sharing switch_offline_event)) = False
   \<and> ums_enabled (snd (handle_switch_event ums_sharing switch_offline_event)) = False"
proof -
  have n: "get_uevent_param switch_offline_event ''SWITCH_NAME'' = Ptr ''usb_mass_storage''"
    by code_simp
  have s: "get_uevent_param switch_offline_event ''SWITCH_STATE'' = Ptr ''offline''"
    by code_simp
  have u: "host_connected ums_sharing = True \<and> ums_enabled ums_sharing = True"
    by (simp add: ums_sharing_def)
  show ?thesis
    using n s u ums_disconnect_disables [of ums_sharing switch_offline_event "''offline''"]
    by simp
qed

end
